theory Spec2Isabelle
  imports Main "HOL-Library.Sublist"
begin

section \<open>Git workflow automation server: a shallow embedding of \<^verbatim>\<open>src/index.ts\<close>\<close>

text \<open>
  The four operations \<^verbatim>\<open>commitAndPush\<close>, \<^verbatim>\<open>createPullRequest\<close>,
  \<^verbatim>\<open>mergePullRequest\<close> and \<^verbatim>\<open>completeGitWorkflow\<close> are orchestration code over
  external collaborators: the \<^verbatim>\<open>simple-git\<close> handle, \<^verbatim>\<open>child_process.exec\<close>, and the
  \<^verbatim>\<open>fs\<close> functions \<^verbatim>\<open>writeFileSync\<close> and \<^verbatim>\<open>unlinkSync\<close>. The embedding keeps
  the orchestration as it is written and makes the collaborators explicit:
  \<^item> every collaborator call is appended to a log (the field \<open>calls\<close> of the world), as a
    recording test double would do;
  \<^item> what a collaborator answers, and whether it throws, is read from an environment
    \<open>E\<close> that may look at the whole log so far, so the environment is an arbitrary
    deterministic script;
  \<^item> a JavaScript exception is a value: the body of a \<^verbatim>\<open>try\<close> block returns
    \<open>Inl e\<close> where the source throws;
  \<^item> the temporary files live in a store \<open>files\<close> from paths to contents, which the two
    file-system calls change when they do not throw.
  JavaScript strings are modelled as \<open>string\<close>; the characters that the regular
  expressions of the source name are all ASCII.
\<close>

subsection \<open>Strings: the JavaScript string functions the source uses\<close>

definition dquote :: char where
  "dquote = CHR 0x22"

definition squote :: char where
  "squote = CHR 0x27"

definition backtick :: char where
  "backtick = CHR 0x60"

definition dollar :: char where
  "dollar = CHR 0x24"

definition newline :: char where
  "newline = CHR 0x0A"

text \<open>The class \<^verbatim>\<open>\s\<close> of a regular expression, which is also what \<^verbatim>\<open>trim()\<close> strips:
  tab, line feed, vertical tab, form feed, carriage return, space and no-break space
  (the members that fit the character type).\<close>

definition is_space :: "char \<Rightarrow> bool" where
  "is_space c = (c = CHR 0x09 \<or> c = CHR 0x0A \<or> c = CHR 0x0B \<or> c = CHR 0x0C \<or> c = CHR 0x0D
                 \<or> c = CHR 0x20 \<or> c = CHR 0xA0)"

text \<open>The class \<^verbatim>\<open>\d\<close>: the ten ASCII digits.\<close>

definition is_digit :: "char \<Rightarrow> bool" where
  "is_digit c = (c = CHR ''0'' \<or> c = CHR ''1'' \<or> c = CHR ''2'' \<or> c = CHR ''3'' \<or> c = CHR ''4''
                 \<or> c = CHR ''5'' \<or> c = CHR ''6'' \<or> c = CHR ''7'' \<or> c = CHR ''8'' \<or> c = CHR ''9'')"

definition digit_val :: "char \<Rightarrow> nat" where
  "digit_val c = of_char c - 48"

text \<open>\<^verbatim>\<open>String.prototype.trim\<close>.\<close>

definition trim :: "string \<Rightarrow> string" where
  "trim s = rev (dropWhile is_space (rev (dropWhile is_space s)))"

text \<open>A number in a template literal: the decimal digits of a non-negative integer.\<close>

definition digit_char :: "nat \<Rightarrow> char" where
  "digit_char d = char_of (48 + d)"

fun string_of_nat :: "nat \<Rightarrow> string" where
  "string_of_nat n = (if n < 10 then [digit_char n] else string_of_nat (n div 10) @ [digit_char (n mod 10)])"

declare string_of_nat.simps [simp del]

text \<open>Truthiness of an optional string: \<^verbatim>\<open>undefined\<close> and the empty string are falsy.\<close>

fun truthy :: "string option \<Rightarrow> bool" where
  "truthy None = False"
| "truthy (Some s) = (s \<noteq> [])"

text \<open>\<^verbatim>\<open>x || d\<close> on an optional string.\<close>

fun or_else :: "string option \<Rightarrow> string \<Rightarrow> string" where
  "or_else None d = d"
| "or_else (Some s) d = (if s = [] then d else s)"

text \<open>A default parameter value \<^verbatim>\<open>p: string = d\<close>: only \<^verbatim>\<open>undefined\<close> takes the default.\<close>

fun default_to :: "'a option \<Rightarrow> 'a \<Rightarrow> 'a" where
  "default_to None d = d"
| "default_to (Some s) d = s"

text \<open>An optional string inside a template literal.\<close>

fun show_opt :: "string option \<Rightarrow> string" where
  "show_opt None = ''undefined''"
| "show_opt (Some s) = s"

subsection \<open>Regular expressions\<close>

text \<open>
  The source uses four regular expressions, none of them with the global flag. Each is
  modelled by a matcher that is tried at one position and answers the matched text, the
  captures and the rest of the input; \<open>search\<close> tries the positions from left to right, as
  \<^verbatim>\<open>RegExp.prototype.exec\<close> does. In each of the four a quantified class is followed by a
  character outside the class (or by the end of input), so the greedy match is the only
  candidate and backtracking never finds another one.
\<close>

fun strip_prefix :: "string \<Rightarrow> string \<Rightarrow> string option" where
  "strip_prefix [] s = Some s"
| "strip_prefix (p # ps) [] = None"
| "strip_prefix (p # ps) (c # cs) = (if p = c then strip_prefix ps cs else None)"

type_synonym matcher = "string \<Rightarrow> (string \<times> string list \<times> string) option"

text \<open>\<^verbatim>\<open>key\s+"([^"]*)"\<close> for a literal \<open>key\<close>; \<open>capture\<close> says whether the group is
  a capturing one.\<close>

definition match_quoted :: "string \<Rightarrow> bool \<Rightarrow> matcher" where
  "match_quoted key capture s =
     (case strip_prefix key s of
        None \<Rightarrow> None
      | Some r \<Rightarrow>
          let ws = takeWhile is_space r; r1 = dropWhile is_space r in
          if ws = [] then None
          else (case r1 of
                  [] \<Rightarrow> None
                | q # r2 \<Rightarrow>
                    if q \<noteq> dquote then None
                    else let inner = takeWhile (\<lambda>c. c \<noteq> dquote) r2;
                             r3 = dropWhile (\<lambda>c. c \<noteq> dquote) r2 in
                         (case r3 of
                            [] \<Rightarrow> None
                          | q' # rest \<Rightarrow>
                              Some (key @ ws @ [dquote] @ inner @ [dquote],
                                    if capture then [inner] else [], rest))))"

text \<open>\<^verbatim>\<open>key\s+[^\s]+\<close> for a literal \<open>key\<close>.\<close>

definition match_unquoted :: "string \<Rightarrow> matcher" where
  "match_unquoted key s =
     (case strip_prefix key s of
        None \<Rightarrow> None
      | Some r \<Rightarrow>
          let ws = takeWhile is_space r; r1 = dropWhile is_space r;
              word = takeWhile (\<lambda>c. \<not> is_space c) r1;
              rest = dropWhile (\<lambda>c. \<not> is_space c) r1 in
          if ws = [] \<or> word = [] then None
          else Some (key @ ws @ word, [], rest))"

text \<open>\<^verbatim>\<open>\/pull\/(\d+)$\<close>: without the multiline flag \<^verbatim>\<open>$\<close> is the end of input.\<close>

definition match_pull :: matcher where
  "match_pull s =
     (case strip_prefix ''/pull/'' s of
        None \<Rightarrow> None
      | Some r \<Rightarrow>
          let ds = takeWhile is_digit r; rest = dropWhile is_digit r in
          if ds = [] \<or> rest \<noteq> [] then None
          else Some (''/pull/'' @ ds, [ds], []))"

text \<open>The leftmost match: the text before it, the matched text, the captures, the text
  after it.\<close>

fun search :: "matcher \<Rightarrow> string \<Rightarrow> string \<Rightarrow> (string \<times> string \<times> string list \<times> string) option" where
  "search m pre [] =
     (case m [] of
        Some (mt, caps, rest) \<Rightarrow> Some (pre, mt, caps, rest)
      | None \<Rightarrow> None)"
| "search m pre (c # cs) =
     (case m (c # cs) of
        Some (mt, caps, rest) \<Rightarrow> Some (pre, mt, caps, rest)
      | None \<Rightarrow> search m (pre @ [c]) cs)"

text \<open>
  \<^verbatim>\<open>GetSubstitution\<close> of ECMAScript, which \<^verbatim>\<open>String.prototype.replace\<close> applies to a
  replacement given as a string: \<^verbatim>\<open>$$\<close> is a dollar sign, \<^verbatim>\<open>$&\<close> the matched text,
  \<^verbatim>\<open>$`\<close> the text before the match, \<^verbatim>\<open>$'\<close> the text after it, \<^verbatim>\<open>$n\<close> and
  \<^verbatim>\<open>$nn\<close> a capture when the expression has that many groups; any other dollar sign
  stands for itself. There are no named groups in the source.
\<close>

fun get_substitution :: "string \<Rightarrow> string \<Rightarrow> string \<Rightarrow> string list \<Rightarrow> string \<Rightarrow> string" where
  "get_substitution matched preceding following caps [] = []"
| "get_substitution matched preceding following caps [c] = [c]"
| "get_substitution matched preceding following caps (c # d # t) =
     (if c \<noteq> dollar then c # get_substitution matched preceding following caps (d # t)
      else if d = dollar then dollar # get_substitution matched preceding following caps t
      else if d = backtick then preceding @ get_substitution matched preceding following caps t
      else if d = CHR ''&'' then matched @ get_substitution matched preceding following caps t
      else if d = squote then following @ get_substitution matched preceding following caps t
      else if is_digit d then
        (case t of
           [] \<Rightarrow>
             if 1 \<le> digit_val d \<and> digit_val d \<le> length caps
             then caps ! (digit_val d - 1)
             else [dollar, d]
         | d2 # t2 \<Rightarrow>
             if is_digit d2 \<and> 10 * digit_val d + digit_val d2 \<le> length caps
             then (if 1 \<le> 10 * digit_val d + digit_val d2
                   then caps ! (10 * digit_val d + digit_val d2 - 1)
                        @ get_substitution matched preceding following caps t2
                   else dollar # d # d2 # get_substitution matched preceding following caps t2)
             else if 1 \<le> digit_val d \<and> digit_val d \<le> length caps
             then caps ! (digit_val d - 1) @ get_substitution matched preceding following caps t
             else dollar # d # get_substitution matched preceding following caps t)
      else dollar # get_substitution matched preceding following caps (d # t))"

text \<open>\<^verbatim>\<open>s.replace(re, replacement)\<close> for a non-global expression: the first match is
  replaced, and a string without a match is returned as it is.\<close>

definition replace_first :: "matcher \<Rightarrow> string \<Rightarrow> string \<Rightarrow> string" where
  "replace_first m replacement s =
     (case search m [] s of
        None \<Rightarrow> s
      | Some (preceding, matched, caps, following) \<Rightarrow>
          preceding @ get_substitution matched preceding following caps replacement @ following)"

text \<open>\<^verbatim>\<open>s.replace(/c/g, r)\<close> for a single character \<open>c\<close> and a replacement \<open>r\<close> in
  which no dollar sign is followed by a character that would expand.\<close>

definition replace_all_char :: "char \<Rightarrow> string \<Rightarrow> string \<Rightarrow> string" where
  "replace_all_char c r s = concat (map (\<lambda>x. if x = c then r else [x]) s)"

definition escapePowerShellString :: "string \<Rightarrow> string" where
  "escapePowerShellString str =
     replace_all_char dquote [dquote, dquote]
       (replace_all_char dollar [backtick, dollar]
         (replace_all_char backtick [backtick, backtick]
           (replace_all_char squote [squote, squote] str)))"

subsection \<open>Results, exceptions and the collaborators\<close>

text \<open>The \<^verbatim>\<open>details\<close> payloads the four operations build. An absent optional field of
  a payload is \<open>None\<close>.\<close>

datatype merge_method = Merge | Squash | Rebase

datatype details =
    CommitDryRun "string list" string "string option" "string option"
  | CommitDone string string nat nat nat
  | PullRequestDryRun string string string "string option"
  | PullRequestDone string string string string
  | MergeDryRun string merge_method bool
  | MergeDone string merge_method string
  | WorkflowDryRun "string list" string string string "string option" string bool
  | WorkflowDone "details option" "details option" "details option"

text \<open>\<^verbatim>\<open>interface WorkflowResult\<close>.\<close>

record workflow_result =
  success :: bool
  message :: string
  details :: "details option"
  error :: "string option"

text \<open>
  A thrown value, as far as the source looks at it. The \<^verbatim>\<open>catch\<close> blocks bind
  \<^verbatim>\<open>error: any\<close> and read \<^verbatim>\<open>error.message\<close>, \<^verbatim>\<open>error.stdout\<close> and
  \<^verbatim>\<open>error.stderr\<close>; each of them is \<^verbatim>\<open>undefined\<close> (here \<open>None\<close>) for a value that has
  no such property, as a rejection with something that is not an \<^verbatim>\<open>Error\<close> has no message.
  Line 192 converts the value to a string, which is \<open>err_string\<close>. A thrown value is an
  object: \<^verbatim>\<open>null\<close> and \<^verbatim>\<open>undefined\<close> are not thrown.
\<close>

record js_error =
  err_message :: "string option"
  err_stdout :: "string option"
  err_stderr :: "string option"
  err_string :: string

text \<open>\<^verbatim>\<open>new Error(msg)\<close>; its conversion to a string is that of
  \<^verbatim>\<open>Error.prototype.toString\<close> for the name \<^verbatim>\<open>Error\<close>.\<close>

definition new_Error :: "string \<Rightarrow> js_error" where
  "new_Error msg =
     \<lparr>err_message = Some msg, err_stdout = None, err_stderr = None,
      err_string = (if msg = [] then ''Error'' else ''Error: '' @ msg)\<rparr>"

text \<open>A value inside a template literal: \<^verbatim>\<open>String(error)\<close>.\<close>

definition error_toString :: "js_error \<Rightarrow> string" where
  "error_toString e = err_string e"

text \<open>The summary a commit returns: \<^verbatim>\<open>commitResult.commit\<close> and the three counters
  of \<^verbatim>\<open>commitResult.summary\<close>.\<close>

record commit_result =
  commit :: string
  changes :: nat
  insertions :: nat
  deletions :: nat

text \<open>Every call that leaves the program. A call on the git handle carries the
  directory the handle was made for.\<close>

datatype call =
    SimpleGit string
  | CheckIsRepo string
  | Status string
  | CheckoutBranch string string string
  | Checkout string string
  | Add string "string list"
  | Commit string string
  | RevParse string "string list"
  | Push string string string
  | Exec string string
  | WriteFileSync string string
  | UnlinkSync string

text \<open>
  The environment. \<open>throws E h c\<close> says whether the call \<open>c\<close>, made after the calls \<open>h\<close>,
  throws, and what; the other functions give the value of a call that returns one.
  \<open>process_cwd\<close>, \<open>os_tmpdir\<close>, \<open>date_now\<close> and \<open>path_join\<close> stand for
  \<^verbatim>\<open>process.cwd()\<close>, \<^verbatim>\<open>tmpdir()\<close>, \<^verbatim>\<open>Date.now()\<close> and \<^verbatim>\<open>join\<close>.
\<close>

record env =
  process_cwd :: string
  os_tmpdir :: string
  date_now :: nat
  path_join :: "string \<Rightarrow> string \<Rightarrow> string"
  throws :: "call list \<Rightarrow> call \<Rightarrow> js_error option"
  is_repo :: "call list \<Rightarrow> string \<Rightarrow> bool"
  rev_parsed :: "call list \<Rightarrow> string \<Rightarrow> string list \<Rightarrow> string"
  committed :: "call list \<Rightarrow> string \<Rightarrow> string \<Rightarrow> commit_result"
  exec_output :: "call list \<Rightarrow> string \<Rightarrow> string \<Rightarrow> string \<times> string"

record world =
  calls :: "call list"
  files :: "string \<rightharpoonup> string"

subsection \<open>Computations that may throw\<close>

type_synonym 'a io = "world \<Rightarrow> (js_error + 'a) \<times> world"

definition ret :: "'a \<Rightarrow> 'a io" where
  "ret x w = (Inr x, w)"

definition and_then :: "'a io \<Rightarrow> ('a \<Rightarrow> 'b io) \<Rightarrow> 'b io" where
  "and_then m f w = (case m w of (Inl e, w') \<Rightarrow> (Inl e, w') | (Inr x, w') \<Rightarrow> f x w')"

text \<open>A call whose value is \<open>v\<close> when it does not throw. The call is logged either way.\<close>

definition perform :: "env \<Rightarrow> call \<Rightarrow> 'a \<Rightarrow> 'a io" where
  "perform E c v w =
     (case throws E (calls w) c of
        Some e \<Rightarrow> (Inl e, w\<lparr>calls := calls w @ [c]\<rparr>)
      | None \<Rightarrow> (Inr v, w\<lparr>calls := calls w @ [c]\<rparr>))"

text \<open>
  The two file-system calls. Both may throw, as the environment says; a call that throws
  leaves the store as it is. A write that does not throw stores the content. An
  \<^verbatim>\<open>unlinkSync\<close> that the environment lets through removes an existing file and throws
  \<^verbatim>\<open>ENOENT\<close> for a missing one.
\<close>

definition writeFileSync :: "env \<Rightarrow> string \<Rightarrow> string \<Rightarrow> unit io" where
  "writeFileSync E path content w =
     (case throws E (calls w) (WriteFileSync path content) of
        Some e \<Rightarrow> (Inl e, w\<lparr>calls := calls w @ [WriteFileSync path content]\<rparr>)
      | None \<Rightarrow> (Inr (), w\<lparr>calls := calls w @ [WriteFileSync path content],
                              files := (files w)(path \<mapsto> content)\<rparr>))"

definition unlinkSync :: "env \<Rightarrow> string \<Rightarrow> unit io" where
  "unlinkSync E path w =
     (case throws E (calls w) (UnlinkSync path) of
        Some e \<Rightarrow> (Inl e, w\<lparr>calls := calls w @ [UnlinkSync path]\<rparr>)
      | None \<Rightarrow>
          if files w path = None
          then (Inl (new_Error (''ENOENT: no such file or directory, unlink '' @ [squote] @ path @ [squote])),
                w\<lparr>calls := calls w @ [UnlinkSync path]\<rparr>)
          else (Inr (), w\<lparr>calls := calls w @ [UnlinkSync path], files := (files w)(path := None)\<rparr>))"

subsection \<open>The helpers of the source\<close>

text \<open>\<^verbatim>\<open>getGit\<close>: \<^verbatim>\<open>simpleGit(workingDir || process.cwd())\<close>. The handle is identified with
  its directory. The factory of \<^verbatim>\<open>simple-git\<close> throws for a directory that does not
  exist, so this call may throw like every other one.\<close>

definition getGit :: "env \<Rightarrow> string option \<Rightarrow> string io" where
  "getGit E workingDir =
     (let dir = or_else workingDir (process_cwd E) in perform E (SimpleGit dir) dir)"

definition checkIsRepo :: "env \<Rightarrow> string \<Rightarrow> bool io" where
  "checkIsRepo E git w = perform E (CheckIsRepo git) (is_repo E (calls w) git) w"

definition revparse :: "env \<Rightarrow> string \<Rightarrow> string list \<Rightarrow> string io" where
  "revparse E git args w = perform E (RevParse git args) (rev_parsed E (calls w) git args) w"

definition commit_changes :: "env \<Rightarrow> string \<Rightarrow> string \<Rightarrow> commit_result io" where
  "commit_changes E git msg w = perform E (Commit git msg) (committed E (calls w) git msg) w"

definition execAsync :: "env \<Rightarrow> string \<Rightarrow> string \<Rightarrow> (string \<times> string) io" where
  "execAsync E command cwd w = perform E (Exec command cwd) (exec_output E (calls w) command cwd) w"

text \<open>The PowerShell wrapper both command helpers build.\<close>

definition powerShellCommand :: "string \<Rightarrow> string" where
  "powerShellCommand command =
     ''powershell -Command '' @ [dquote]
       @ ''Remove-Item Env:GH_TOKEN -ErrorAction SilentlyContinue; ''
       @ ''Remove-Item Env:GITHUB_TOKEN -ErrorAction SilentlyContinue; ''
       @ command @ [dquote]"

text \<open>The error both command helpers throw from their \<^verbatim>\<open>catch\<close> block.\<close>

definition command_failed :: "js_error \<Rightarrow> js_error" where
  "command_failed e =
     new_Error (''Command failed: '' @ show_opt (err_message e) @ [newline]
                @ ''Stdout: '' @ show_opt (err_stdout e) @ [newline]
                @ ''Stderr: '' @ show_opt (err_stderr e))"

definition executeWithClearedTokens :: "env \<Rightarrow> string \<Rightarrow> string option \<Rightarrow> (string \<times> string) io" where
  "executeWithClearedTokens E command cwd w =
     (case execAsync E (powerShellCommand command) (or_else cwd (process_cwd E)) w of
        (Inl e, w') \<Rightarrow> (Inl (command_failed e), w')
      | (Inr result, w') \<Rightarrow> (Inr result, w'))"

text \<open>The \<^verbatim>\<open>options\<close> argument of \<^verbatim>\<open>executeGitHubCommand\<close>.\<close>

record gh_options =
  opt_title :: "string option"
  opt_body :: "string option"
  opt_cwd :: "string option"

definition tempBodyFile :: "env \<Rightarrow> string" where
  "tempBodyFile E = path_join E (os_tmpdir E) (''gh-pr-body-'' @ string_of_nat (date_now E) @ ''.txt'')"

text \<open>The first half of the \<^verbatim>\<open>try\<close> block: with a body, the temporary file is written
  and the two replacements of \<^verbatim>\<open>--body\<close> are applied one after the other.\<close>

definition body_step :: "env \<Rightarrow> gh_options \<Rightarrow> string \<Rightarrow> string io" where
  "body_step E options baseCommand =
     (case opt_body options of
        None \<Rightarrow> ret baseCommand
      | Some body \<Rightarrow>
          if body = [] then ret baseCommand
          else and_then (writeFileSync E (tempBodyFile E) body)
                 (\<lambda>_. ret (replace_first (match_unquoted ''--body'')
                                (''--body-file '' @ [dquote] @ tempBodyFile E @ [dquote])
                              (replace_first (match_quoted ''--body'' False)
                                (''--body-file '' @ [dquote] @ tempBodyFile E @ [dquote])
                                baseCommand))))"

text \<open>The second half: with a title, the first quoted \<^verbatim>\<open>--title\<close> argument is replaced
  by the escaped title in single quotes.\<close>

definition title_step :: "gh_options \<Rightarrow> string \<Rightarrow> string" where
  "title_step options command =
     (case opt_title options of
        None \<Rightarrow> command
      | Some title \<Rightarrow>
          if title = [] then command
          else replace_first (match_quoted ''--title'' True)
                 (''--title '' @ [squote] @ escapePowerShellString title @ [squote])
                 command)"

text \<open>
  \<^verbatim>\<open>executeGitHubCommand\<close>: the \<^verbatim>\<open>try\<close> block, then the \<^verbatim>\<open>catch\<close> block that wraps
  the error, then the \<^verbatim>\<open>finally\<close> block, which runs on both paths. \<^verbatim>\<open>tempBodyFile\<close>
  is assigned before anything in the \<^verbatim>\<open>try\<close> block can throw, so in \<^verbatim>\<open>finally\<close> it is
  set exactly when the body is truthy; an error of the cleanup is dropped.
\<close>

definition executeGitHubCommand :: "env \<Rightarrow> string \<Rightarrow> gh_options \<Rightarrow> (string \<times> string) io" where
  "executeGitHubCommand E baseCommand options w =
     (case and_then (body_step E options baseCommand)
             (\<lambda>command. execAsync E (powerShellCommand (title_step options command))
                           (or_else (opt_cwd options) (process_cwd E))) w of
        (r, w1) \<Rightarrow>
          (case r of Inl e \<Rightarrow> Inl (command_failed e) | Inr result \<Rightarrow> Inr result,
           if truthy (opt_body options) then snd (unlinkSync E (tempBodyFile E) w1) else w1))"

subsection \<open>The four operations\<close>

definition failed :: "string \<Rightarrow> string \<Rightarrow> workflow_result" where
  "failed msg err = \<lparr>success = False, message = msg, details = None, error = Some err\<rparr>"

definition succeeded :: "string \<Rightarrow> details \<Rightarrow> workflow_result" where
  "succeeded msg d = \<lparr>success = True, message = msg, details = Some d, error = None\<rparr>"

text \<open>An operation is a \<^verbatim>\<open>try\<close> block whose \<^verbatim>\<open>catch\<close> block turns the error into a
  failure result; \<open>on_error\<close> is the \<^verbatim>\<open>catch\<close> block.\<close>

definition try_catch :: "workflow_result io \<Rightarrow> (js_error \<Rightarrow> workflow_result) \<Rightarrow> world \<Rightarrow> workflow_result \<times> world" where
  "try_catch body on_error w =
     (case body w of (Inl e, w') \<Rightarrow> (on_error e, w') | (Inr r, w') \<Rightarrow> (r, w'))"

text \<open>
  Lines 180 to 196 of \<^verbatim>\<open>commitAndPush\<close>: with a truthy branch name,
  \<^verbatim>\<open>checkoutBranch(branch, 'HEAD')\<close>; when that throws, \<^verbatim>\<open>checkout(branch)\<close>; when that
  throws too, the early return of a failure result, here \<open>Some\<close> of it.
\<close>

definition switch_branch :: "env \<Rightarrow> string \<Rightarrow> string option \<Rightarrow> workflow_result option io" where
  "switch_branch E git branch w =
     (case branch of
        None \<Rightarrow> (Inr None, w)
      | Some b \<Rightarrow>
          if b = [] then (Inr None, w)
          else (case perform E (CheckoutBranch git b ''HEAD'') () w of
                  (Inr _, w1) \<Rightarrow> (Inr None, w1)
                | (Inl createError, w1) \<Rightarrow>
                    (case perform E (Checkout git b) () w1 of
                       (Inr _, w2) \<Rightarrow> (Inr None, w2)
                     | (Inl switchError, w2) \<Rightarrow>
                         (Inr (Some (failed ''Failed to commit and push''
                                  (''Failed to create or switch to branch '' @ b @ '': ''
                                   @ error_toString switchError))), w2))))"

text \<open>The \<^verbatim>\<open>catch\<close> block of \<^verbatim>\<open>commitAndPush\<close>, lines 224 to 230: the error of the
  result is \<^verbatim>\<open>error.message\<close> as it is, absent when the caught value has no message.\<close>

definition commit_caught :: "js_error \<Rightarrow> workflow_result" where
  "commit_caught e =
     \<lparr>success = False, message = ''Failed to commit and push'', details = None, error = err_message e\<rparr>"

text \<open>Lines 198 to 223 of \<^verbatim>\<open>commitAndPush\<close>: the files are staged, the commit is made,
  the current branch is asked for and pushed to \<^verbatim>\<open>origin\<close>.\<close>

definition stage_commit_push :: "env \<Rightarrow> string \<Rightarrow> string list \<Rightarrow> string \<Rightarrow> workflow_result io" where
  "stage_commit_push E git files_arg commitMessage =
     and_then (perform E (Add git (if files_arg \<noteq> [] then files_arg else [''.''])) ()) (\<lambda>_.
     and_then (commit_changes E git commitMessage) (\<lambda>commitResult.
     and_then (revparse E git [''--abbrev-ref'', ''HEAD'']) (\<lambda>currentBranch.
     and_then (perform E (Push git ''origin'' currentBranch) ()) (\<lambda>_.
       ret (succeeded ''Successfully committed and pushed changes''
              (CommitDone (commit commitResult) currentBranch (changes commitResult)
                 (insertions commitResult) (deletions commitResult)))))))"

definition commitAndPush ::
  "env \<Rightarrow> string list \<Rightarrow> string \<Rightarrow> string option \<Rightarrow> string option \<Rightarrow> bool \<Rightarrow> world \<Rightarrow> workflow_result \<times> world" where
  "commitAndPush E files_arg commitMessage branch workingDir dryRun =
     try_catch
       (and_then (getGit E workingDir) (\<lambda>git.
          if dryRun
          then ret (succeeded ''Dry run: Would commit and push changes''
                      (CommitDryRun files_arg commitMessage branch workingDir))
          else
          and_then (checkIsRepo E git) (\<lambda>isRepo.
            if \<not> isRepo
            then ret (failed ''Failed to commit and push'' ''Not a Git repository'')
            else
            and_then (perform E (Status git) ()) (\<lambda>_.
            and_then (switch_branch E git branch) (\<lambda>early.
              case early of
                Some r \<Rightarrow> ret r
              | None \<Rightarrow> stage_commit_push E git files_arg commitMessage)))))
       commit_caught"

text \<open>The command line \<^verbatim>\<open>createPullRequest\<close> hands to \<^verbatim>\<open>executeGitHubCommand\<close>.\<close>

definition pr_create_command :: "string \<Rightarrow> string \<Rightarrow> string \<Rightarrow> string \<Rightarrow> string" where
  "pr_create_command title body baseBranch headBranch =
     ''gh pr create --title '' @ [dquote] @ title @ [dquote]
       @ '' --body '' @ [dquote] @ body @ [dquote]
       @ '' --base '' @ baseBranch @ '' --head '' @ headBranch"

text \<open>Lines 258 to 262 of \<^verbatim>\<open>createPullRequest\<close>: a falsy head branch is replaced by the
  current branch of the working directory.\<close>

definition resolve_head :: "env \<Rightarrow> string option \<Rightarrow> string option \<Rightarrow> string io" where
  "resolve_head E headBranch workingDir =
     (if \<not> truthy headBranch
      then and_then (getGit E workingDir) (\<lambda>git. revparse E git [''--abbrev-ref'', ''HEAD''])
      else ret (show_opt headBranch))"

definition createPullRequest ::
  "env \<Rightarrow> string \<Rightarrow> string \<Rightarrow> string option \<Rightarrow> string option \<Rightarrow> string option \<Rightarrow> bool \<Rightarrow> world \<Rightarrow> workflow_result \<times> world" where
  "createPullRequest E title body baseBranch_arg headBranch_arg workingDir dryRun =
     (let baseBranch = default_to baseBranch_arg ''main'' in
      try_catch
        (if dryRun
         then ret (succeeded ''Dry run: Would create pull request''
                     (PullRequestDryRun title body baseBranch headBranch_arg))
         else
         and_then (resolve_head E headBranch_arg workingDir) (\<lambda>headBranch.
         and_then (executeGitHubCommand E (pr_create_command title body baseBranch headBranch)
                     \<lparr>opt_title = Some title, opt_body = Some body, opt_cwd = workingDir\<rparr>) (\<lambda>result.
           ret (succeeded ''Successfully created pull request''
                  (PullRequestDone (trim (fst result)) title baseBranch headBranch)))))
        (\<lambda>e. failed ''Failed to create pull request''
                    (''Failed to create pull request: '' @ show_opt (err_message e))))"

definition mergeFlag :: "merge_method \<Rightarrow> string" where
  "mergeFlag mergeMethod =
     (if mergeMethod = Squash then ''--squash''
      else if mergeMethod = Rebase then ''--rebase'' else ''--merge'')"

definition deleteFlag :: "bool \<Rightarrow> string" where
  "deleteFlag deleteBranch = (if deleteBranch then ''--delete-branch'' else [])"

definition pr_merge_command :: "string \<Rightarrow> merge_method \<Rightarrow> bool \<Rightarrow> string" where
  "pr_merge_command prNumber mergeMethod deleteBranch =
     trim (''gh pr merge '' @ prNumber @ '' '' @ mergeFlag mergeMethod @ '' '' @ deleteFlag deleteBranch)"

definition mergePullRequest ::
  "env \<Rightarrow> string \<Rightarrow> merge_method option \<Rightarrow> bool option \<Rightarrow> string option \<Rightarrow> bool \<Rightarrow> world \<Rightarrow> workflow_result \<times> world" where
  "mergePullRequest E prNumber mergeMethod_arg deleteBranch_arg workingDir dryRun =
     (let mergeMethod = default_to mergeMethod_arg Merge;
          deleteBranch = default_to deleteBranch_arg True in
      try_catch
        (if dryRun
         then ret (succeeded ''Dry run: Would merge pull request''
                     (MergeDryRun prNumber mergeMethod deleteBranch))
         else
         and_then (executeWithClearedTokens E (pr_merge_command prNumber mergeMethod deleteBranch) workingDir)
           (\<lambda>result.
              ret (succeeded ''Successfully merged pull request''
                     (MergeDone prNumber mergeMethod (fst result)))))
        (\<lambda>e. failed ''Failed to merge pull request''
                    (''Failed to merge pull request: '' @ show_opt (err_message e))))"

text \<open>\<^verbatim>\<open>prResult.details?.url\<close>: only the payload of a created pull request has a
  \<^verbatim>\<open>url\<close>.\<close>

fun details_url :: "details option \<Rightarrow> string option" where
  "details_url (Some (PullRequestDone url title baseBranch headBranch)) = Some url"
| "details_url _ = None"

text \<open>\<^verbatim>\<open>url.match(/\/pull\/(\d+)$/)\<close> and, of the match, \<^verbatim>\<open>prMatch[1]\<close>. The expression
  has one group, so a match always has a first capture.\<close>

definition pull_number :: "string \<Rightarrow> string option" where
  "pull_number url =
     (case search match_pull [] url of
        None \<Rightarrow> None
      | Some (preceding, matched, caps, following) \<Rightarrow>
          (case caps of [] \<Rightarrow> None | prNumber # _ \<Rightarrow> Some prNumber))"

text \<open>An awaited operation inside the \<^verbatim>\<open>try\<close> block of the composite. The operations
  return a result on every path, so nothing is thrown here.\<close>

definition await :: "(world \<Rightarrow> workflow_result \<times> world) \<Rightarrow> workflow_result io" where
  "await operation w = (case operation w of (r, w') \<Rightarrow> (Inr r, w'))"

text \<open>Lines 385 to 393 of \<^verbatim>\<open>completeGitWorkflow\<close>: \<open>None\<close> is \<^verbatim>\<open>mergeResult = null\<close>.\<close>

definition auto_merge :: "env \<Rightarrow> bool \<Rightarrow> workflow_result \<Rightarrow> string option \<Rightarrow> workflow_result option io" where
  "auto_merge E autoMerge prResult workingDir =
     (if autoMerge \<and> truthy (details_url (details prResult))
      then (case pull_number (show_opt (details_url (details prResult))) of
              None \<Rightarrow> ret None
            | Some prNumber \<Rightarrow>
                and_then (await (mergePullRequest E prNumber (Some Merge) (Some True) workingDir False))
                  (\<lambda>mergeResult. ret (Some mergeResult)))
      else ret None)"

definition completeGitWorkflow ::
  "env \<Rightarrow> string list \<Rightarrow> string \<Rightarrow> string \<Rightarrow> string \<Rightarrow> string option \<Rightarrow> string option \<Rightarrow> bool \<Rightarrow> string option \<Rightarrow> bool
     \<Rightarrow> world \<Rightarrow> workflow_result \<times> world" where
  "completeGitWorkflow E files_arg commitMessage prTitle prBody branch baseBranch_arg autoMerge workingDir dryRun =
     (let baseBranch = default_to baseBranch_arg ''main'' in
      try_catch
        (if dryRun
         then ret (succeeded ''Dry run: Would execute complete Git workflow''
                     (WorkflowDryRun files_arg commitMessage prTitle prBody branch baseBranch autoMerge))
         else
         and_then (await (commitAndPush E files_arg commitMessage branch workingDir False)) (\<lambda>commitResult.
           if \<not> success commitResult then ret commitResult
           else
           and_then (await (createPullRequest E prTitle prBody (Some baseBranch) branch workingDir False)) (\<lambda>prResult.
             if \<not> success prResult then ret prResult
             else
             and_then (auto_merge E autoMerge prResult workingDir) (\<lambda>mergeResult.
               ret (succeeded ''Successfully completed Git workflow''
                      (WorkflowDone (details commitResult) (details prResult)
                         (case mergeResult of None \<Rightarrow> None | Some m \<Rightarrow> details m)))))))
        (\<lambda>e. failed ''Git workflow failed'' (''Git workflow failed: '' @ show_opt (err_message e))))"

subsection \<open>Predicates on computations\<close>

text \<open>The calls on the git handle, as opposed to executed commands and file-system
  calls.\<close>

fun is_git :: "call \<Rightarrow> bool" where
  "is_git (Exec command cwd) = False"
| "is_git (WriteFileSync path content) = False"
| "is_git (UnlinkSync path) = False"
| "is_git _ = True"

text \<open>The plain switch to a branch, \<^verbatim>\<open>git.checkout(branch)\<close>.\<close>

fun is_plain_switch :: "call \<Rightarrow> bool" where
  "is_plain_switch (Checkout dir branch) = True"
| "is_plain_switch _ = False"

text \<open>\<open>appends G m\<close>: from every world, \<open>m\<close> only adds calls to the log, and every call
  it adds satisfies \<open>G\<close>.\<close>

definition appends :: "(call \<Rightarrow> bool) \<Rightarrow> (world \<Rightarrow> 'r \<times> world) \<Rightarrow> bool" where
  "appends G m = (\<forall>w. \<exists>cs. calls (snd (m w)) = calls w @ cs \<and> list_all G cs)"

text \<open>\<open>yields T P m\<close>: whatever \<open>m\<close> throws satisfies \<open>T\<close>, whatever it returns
  satisfies \<open>P\<close>.\<close>

definition yields :: "(js_error \<Rightarrow> bool) \<Rightarrow> ('a \<Rightarrow> bool) \<Rightarrow> 'a io \<Rightarrow> bool" where
  "yields T P m = (\<forall>w. case fst (m w) of Inl e \<Rightarrow> T e | Inr x \<Rightarrow> P x)"



text \<open>The three shapes of a result: a success with a payload and without an error; a
  failure without a payload whose error text is not empty; a failure without a payload
  whose error is the message, such as it is, of a thrown value that satisfies \<open>X\<close>.\<close>

definition well_formed :: "(js_error \<Rightarrow> bool) \<Rightarrow> workflow_result \<Rightarrow> bool" where
  "well_formed X r =
     ((\<exists>msg d. r = succeeded msg d)
      \<or> (\<exists>msg err. r = failed msg err \<and> err \<noteq> [])
      \<or> (\<exists>e. X e \<and> r = commit_caught e))"

subsection \<open>Scripted environments\<close>

text \<open>Concrete environments on which the operations are run below. \<open>scripted\<close> fixes
  everything but the exceptions and the standard output of the executed commands.\<close>

definition scripted :: "(call list \<Rightarrow> call \<Rightarrow> js_error option) \<Rightarrow> string \<Rightarrow> env" where
  "scripted thrown out =
     \<lparr>process_cwd = ''/repo'', os_tmpdir = ''/tmp'', date_now = 1700,
      path_join = (\<lambda>a b. a @ ''/'' @ b),
      throws = thrown,
      is_repo = (\<lambda>h dir. True),
      rev_parsed = (\<lambda>h dir args. ''feature''),
      committed = (\<lambda>h dir msg. \<lparr>commit = ''abc123'', changes = 1, insertions = 2, deletions = 3\<rparr>),
      exec_output = (\<lambda>h command cwd. (out, []))\<rparr>"

definition pull_url :: string where
  "pull_url = ''https://github.com/org/repo/pull/42''"

text \<open>Nothing throws, and every command prints the URL of pull request 42 and a line
  feed.\<close>

definition quiet_env :: env where
  "quiet_env = scripted (\<lambda>h c. None) (pull_url @ [newline])"

text \<open>Nothing throws, and every command prints the URL of an issue.\<close>

definition issue_url :: string where
  "issue_url = ''https://example.com/org/repo/issues/42''"

definition issue_env :: env where
  "issue_env = scripted (\<lambda>h c. None) (issue_url @ [newline])"

fun is_exec :: "call \<Rightarrow> bool" where
  "is_exec (Exec command cwd) = True"
| "is_exec _ = False"

text \<open>The error of a command that \<^verbatim>\<open>exec\<close> ran and that exited with a failure.\<close>

definition exec_error :: "string \<Rightarrow> js_error" where
  "exec_error msg =
     \<lparr>err_message = Some msg, err_stdout = Some [], err_stderr = Some msg, err_string = ''Error: '' @ msg\<rparr>"

text \<open>The push is rejected.\<close>

definition rejecting_env :: env where
  "rejecting_env =
     scripted (\<lambda>h c. case c of Push dir remote branch \<Rightarrow> Some (new_Error ''push rejected'') | _ \<Rightarrow> None)
       (pull_url @ [newline])"

text \<open>Every executed command fails.\<close>

definition offline_env :: env where
  "offline_env =
     scripted (\<lambda>h c. if is_exec c then Some (exec_error ''gh: not logged in'') else None) []"

text \<open>The first executed command prints the URL of pull request 42, every later one
  fails.\<close>

definition merge_conflict_env :: env where
  "merge_conflict_env =
     scripted (\<lambda>h c. if is_exec c \<and> list_ex is_exec h then Some (exec_error ''not mergeable'') else None)
       (pull_url @ [newline])"

text \<open>The temporary file cannot be written.\<close>

definition disk_full_env :: env where
  "disk_full_env =
     scripted (\<lambda>h c. case c of WriteFileSync path content \<Rightarrow> Some (new_Error ''ENOSPC: no space left on device'') | _ \<Rightarrow> None)
       (pull_url @ [newline])"

text \<open>The branch can neither be created nor switched to.\<close>

definition locked_branch_env :: env where
  "locked_branch_env =
     scripted (\<lambda>h c. case c of
                  CheckoutBranch dir branch start \<Rightarrow> Some (new_Error ''branch already exists'')
                | Checkout dir branch \<Rightarrow> Some (new_Error ''local changes would be overwritten'')
                | _ \<Rightarrow> None)
       (pull_url @ [newline])"



text \<open>The temporary file is held open by another process when it is to be removed.\<close>

definition busy_file_env :: env where
  "busy_file_env =
     scripted (\<lambda>h c. case c of
                  UnlinkSync path \<Rightarrow> Some (new_Error ''EBUSY: resource busy or locked, unlink'')
                | _ \<Rightarrow> None)
       (pull_url @ [newline])"

text \<open>The factory of \<^verbatim>\<open>simple-git\<close> is given a directory that does not exist.\<close>

definition no_directory_env :: env where
  "no_directory_env =
     scripted (\<lambda>h c. case c of
                  SimpleGit dir \<Rightarrow> Some (new_Error ''Cannot use simple-git on a directory that does not exist'')
                | _ \<Rightarrow> None)
       (pull_url @ [newline])"

text \<open>A title and a body with quoted words in them.\<close>

definition quoted_title :: string where
  "quoted_title = ''Fix '' @ [dquote] @ ''login'' @ [dquote] @ '' bug''"

definition quoted_body :: string where
  "quoted_body = ''Handles the '' @ [dquote] @ ''remember me'' @ [dquote] @ '' box''"

definition empty_world :: world where
  "empty_world = \<lparr>calls = [], files = Map.empty\<rparr>"

section \<open>Properties\<close>

subsection \<open>Calls and strings\<close>

lemma calls_perform: "calls (snd (perform E c v w)) = calls w @ [c]"
  by (simp add: perform_def split: option.splits)

lemma succeeded_fields [simp]:
  "success (succeeded msg d)" "message (succeeded msg d) = msg"
  "details (succeeded msg d) = Some d" "error (succeeded msg d) = None"
  by (simp_all add: succeeded_def)

lemma failed_fields [simp]:
  "\<not> success (failed msg err)" "message (failed msg err) = msg"
  "details (failed msg err) = None" "error (failed msg err) = Some err"
  by (simp_all add: failed_def)

lemma trim_keep:
  assumes "\<not> is_space a" "\<not> is_space z"
  shows "trim (a # m @ [z]) = a # m @ [z]"
  using assms by (simp add: trim_def)

lemma trim_trailing_space:
  assumes "\<not> is_space a" "\<not> is_space z"
  shows "trim (a # m @ [z, CHR '' '']) = a # m @ [z]"
  using assms by (simp add: trim_def is_space_def)

subsection \<open>The merge command\<close>

text \<open>The \<^verbatim>\<open>trim()\<close> of line 320 only removes the space that an empty delete flag
  leaves at the end.\<close>

lemma pr_merge_command_eq:
  "pr_merge_command prNumber mergeMethod deleteBranch =
     ''gh pr merge '' @ prNumber @ '' '' @ mergeFlag mergeMethod
       @ (if deleteBranch then '' --delete-branch'' else [])"
proof (cases deleteBranch)
  case True
  have "pr_merge_command prNumber mergeMethod True =
          trim (CHR ''g'' # (''h pr merge '' @ prNumber @ '' '' @ mergeFlag mergeMethod @ '' --delete-branc'') @ [CHR ''h''])"
    by (simp add: pr_merge_command_def deleteFlag_def)
  also have "\<dots> = CHR ''g'' # (''h pr merge '' @ prNumber @ '' '' @ mergeFlag mergeMethod @ '' --delete-branc'') @ [CHR ''h'']"
    by (rule trim_keep) (simp_all add: is_space_def)
  finally show ?thesis using True by simp
next
  case False
  obtain f z where fz: "mergeFlag mergeMethod = f @ [z]" "\<not> is_space z"
    by (cases mergeMethod) (auto simp: mergeFlag_def is_space_def)
  have "pr_merge_command prNumber mergeMethod False =
          trim (CHR ''g'' # (''h pr merge '' @ prNumber @ '' '' @ f) @ [z, CHR '' ''])"
    by (simp add: pr_merge_command_def deleteFlag_def fz)
  also have "\<dots> = CHR ''g'' # (''h pr merge '' @ prNumber @ '' '' @ f) @ [z]"
    by (rule trim_trailing_space) (simp add: is_space_def, rule fz(2))
  finally show ?thesis using False by (simp add: fz)
qed

lemma snd_executeWithClearedTokens:
  "snd (executeWithClearedTokens E command cwd w) =
     w\<lparr>calls := calls w @ [Exec (powerShellCommand command) (or_else cwd (process_cwd E))]\<rparr>"
  by (simp add: executeWithClearedTokens_def execAsync_def perform_def split: option.splits)

lemma snd_mergePullRequest:
  "snd (mergePullRequest E prNumber mergeMethod deleteBranch workingDir False w) =
     snd (executeWithClearedTokens E
            (pr_merge_command prNumber (default_to mergeMethod Merge) (default_to deleteBranch True))
            workingDir w)"
  by (simp add: mergePullRequest_def try_catch_def and_then_def ret_def Let_def
      split: prod.splits sum.splits)

text \<open>
  Claim C7. A merge that is not a dry run makes exactly one collaborator call: the
  execution of \<^verbatim>\<open>gh pr merge\<close> with the pull request number, then \<^verbatim>\<open>--squash\<close> for
  the method squash, \<^verbatim>\<open>--rebase\<close> for rebase, \<^verbatim>\<open>--merge\<close> for merge and for an
  unspecified method, and then \<^verbatim>\<open>--delete-branch\<close> when the delete flag is true or
  unspecified. With the delete flag false the command ends after the merge flag: the code
  adds nothing that names the deletion of the branch.
\<close>

theorem mergePullRequest_flags:
  "calls (snd (mergePullRequest E prNumber mergeMethod deleteBranch workingDir False w)) =
     calls w @
     [Exec (powerShellCommand
              (''gh pr merge '' @ prNumber @ '' ''
               @ (case mergeMethod of
                    None \<Rightarrow> ''--merge''
                  | Some Merge \<Rightarrow> ''--merge''
                  | Some Squash \<Rightarrow> ''--squash''
                  | Some Rebase \<Rightarrow> ''--rebase'')
               @ (case deleteBranch of
                    None \<Rightarrow> '' --delete-branch''
                  | Some True \<Rightarrow> '' --delete-branch''
                  | Some False \<Rightarrow> [])))
           (or_else workingDir (process_cwd E))]"
proof -
  have flag: "mergeFlag (default_to mergeMethod Merge) =
      (case mergeMethod of None \<Rightarrow> ''--merge'' | Some Merge \<Rightarrow> ''--merge''
       | Some Squash \<Rightarrow> ''--squash'' | Some Rebase \<Rightarrow> ''--rebase'')"
    by (simp add: mergeFlag_def split: option.splits merge_method.splits)
  have del: "(if default_to deleteBranch True then '' --delete-branch'' else []) =
      (case deleteBranch of None \<Rightarrow> '' --delete-branch'' | Some True \<Rightarrow> '' --delete-branch''
       | Some False \<Rightarrow> [])"
    by (simp split: option.splits bool.splits)
  show ?thesis
    unfolding snd_mergePullRequest snd_executeWithClearedTokens pr_merge_command_eq flag del
    by simp
qed

theorem mergePullRequest_flags_witness:
  "calls (snd (mergePullRequest quiet_env ''42'' (Some Squash) (Some False) None False empty_world)) =
     [Exec (powerShellCommand ''gh pr merge 42 --squash'') ''/repo'']
   \<and> calls (snd (mergePullRequest quiet_env ''42'' None None None False empty_world)) =
     [Exec (powerShellCommand ''gh pr merge 42 --merge --delete-branch'') ''/repo'']"
  using mergePullRequest_flags [of quiet_env "''42''" "Some Squash" "Some False" None empty_world]
    mergePullRequest_flags [of quiet_env "''42''" None None None empty_world]
  by (simp add: quiet_env_def scripted_def empty_world_def)

subsection \<open>Sequencing\<close>

lemma ret_apply [simp]: "ret x w = (Inr x, w)"
  by (simp add: ret_def)

lemma and_then_cases:
  "(\<exists>e w1. m w = (Inl e, w1) \<and> and_then m f w = (Inl e, w1))
   \<or> (\<exists>x w1. m w = (Inr x, w1) \<and> and_then m f w = f x w1)"
proof (cases "m w")
  case (Pair r w1)
  then show ?thesis by (cases r) (simp_all add: and_then_def)
qed

lemma appendsD: "appends G m \<Longrightarrow> \<exists>cs. calls (snd (m w)) = calls w @ cs \<and> list_all G cs"
  by (simp add: appends_def)

lemma appends_ret: "appends G (ret x)"
  by (simp add: appends_def)

lemma appends_perform: "G c \<Longrightarrow> appends G (perform E c v)"
  by (simp add: appends_def calls_perform)

lemma appends_and_then:
  assumes "appends G m" and "\<And>x. appends G (f x)"
  shows "appends G (and_then m f)"
  unfolding appends_def
proof
  fix w
  from appendsD [OF assms(1), of w] obtain cs where cs: "calls (snd (m w)) = calls w @ cs" "list_all G cs"
    by blast
  from and_then_cases [of m w f] show "\<exists>cs. calls (snd (and_then m f w)) = calls w @ cs \<and> list_all G cs"
  proof (elim disjE exE conjE)
    fix e w1
    assume "m w = (Inl e, w1)" "and_then m f w = (Inl e, w1)"
    with cs show ?thesis by auto
  next
    fix x w1
    assume *: "m w = (Inr x, w1)" "and_then m f w = f x w1"
    from appendsD [OF assms(2), of x w1] obtain ds where
      "calls (snd (f x w1)) = calls w1 @ ds" "list_all G ds" by blast
    with cs * show ?thesis by auto
  qed
qed

lemma appends_try_catch: "appends G body \<Longrightarrow> appends G (try_catch body on_error)"
  unfolding appends_def
proof
  fix w
  assume a: "\<forall>w. \<exists>cs. calls (snd (body w)) = calls w @ cs \<and> list_all G cs"
  obtain r w1 where b: "body w = (r, w1)" by (cases "body w")
  have "snd (try_catch body on_error w) = w1"
    using b by (cases r) (simp_all add: try_catch_def)
  with a [rule_format, of w] b
  show "\<exists>cs. calls (snd (try_catch body on_error w)) = calls w @ cs \<and> list_all G cs" by simp
qed

subsection \<open>What a computation throws and returns\<close>

lemma yieldsI:
  assumes "\<And>w e w'. m w = (Inl e, w') \<Longrightarrow> T e" and "\<And>w x w'. m w = (Inr x, w') \<Longrightarrow> P x"
  shows "yields T P m"
  unfolding yields_def
proof
  fix w
  obtain r w' where "m w = (r, w')" by (cases "m w")
  with assms show "case fst (m w) of Inl e \<Rightarrow> T e | Inr x \<Rightarrow> P x"
    by (cases r) auto
qed

lemma yields_Inl: "yields T P m \<Longrightarrow> m w = (Inl e, w') \<Longrightarrow> T e"
  by (auto simp: yields_def dest!: spec [of _ w])

lemma yields_Inr: "yields T P m \<Longrightarrow> m w = (Inr x, w') \<Longrightarrow> P x"
  by (auto simp: yields_def dest!: spec [of _ w])

lemma yields_ret: "P x \<Longrightarrow> yields T P (ret x)"
  by (simp add: yields_def)

lemma yields_and_then:
  assumes "yields T Q m" and "\<And>x. Q x \<Longrightarrow> yields T P (f x)"
  shows "yields T P (and_then m f)"
proof (rule yieldsI)
  fix w e w'
  assume run: "and_then m f w = (Inl e, w')"
  from and_then_cases [of m w f] consider
    (thrown) e' w1 where "m w = (Inl e', w1)" "and_then m f w = (Inl e', w1)"
    | (returned) x w1 where "m w = (Inr x, w1)" "and_then m f w = f x w1"
    by blast
  then show "T e"
  proof cases
    case thrown
    with run yields_Inl [OF assms(1)] show ?thesis by simp
  next
    case returned
    from yields_Inr [OF assms(1) returned(1)] have "yields T P (f x)" by (rule assms(2))
    moreover from run returned(2) have "f x w1 = (Inl e, w')" by simp
    ultimately show ?thesis by (rule yields_Inl)
  qed
next
  fix w y w'
  assume run: "and_then m f w = (Inr y, w')"
  from and_then_cases [of m w f] consider
    (thrown) e' w1 where "m w = (Inl e', w1)" "and_then m f w = (Inl e', w1)"
    | (returned) x w1 where "m w = (Inr x, w1)" "and_then m f w = f x w1"
    by blast
  then show "P y"
  proof cases
    case thrown
    with run show ?thesis by simp
  next
    case returned
    from yields_Inr [OF assms(1) returned(1)] have "yields T P (f x)" by (rule assms(2))
    moreover from run returned(2) have "f x w1 = (Inr y, w')" by simp
    ultimately show ?thesis by (rule yields_Inr)
  qed
qed


lemma await_eq: "await operation w = (Inr (fst (operation w)), snd (operation w))"
  by (simp add: await_def split: prod.splits)


lemma try_catch_yields:
  assumes "yields T P body" and "\<And>e. T e \<Longrightarrow> P (on_error e)"
  shows "P (fst (try_catch body on_error w))"
proof -
  obtain r w' where b: "body w = (r, w')" by (cases "body w")
  show ?thesis
  proof (cases r)
    case (Inl e)
    with b assms show ?thesis by (auto simp: try_catch_def dest: yields_Inl)
  next
    case (Inr x)
    with b assms show ?thesis by (auto simp: try_catch_def dest: yields_Inr)
  qed
qed

lemma yields_trivial: "yields (\<lambda>e. True) (\<lambda>x. True) m"
  by (simp add: yields_def split: sum.splits)

lemma well_formed_succeeded: "well_formed X (succeeded msg d)"
  by (auto simp: well_formed_def)

lemma well_formed_failed: "err \<noteq> [] \<Longrightarrow> well_formed X (failed msg err)"
  by (auto simp: well_formed_def)



lemma well_formed_fields:
  assumes "well_formed X r"
  shows "(success r \<longrightarrow> error r = None) \<and> (\<not> success r \<longrightarrow> details r = None)
       \<and> ((\<forall>e. X e \<longrightarrow> err_message e \<noteq> None \<and> err_message e \<noteq> Some [])
            \<longrightarrow> (\<not> success r \<longleftrightarrow> error r \<noteq> None \<and> error r \<noteq> Some []))"
  using assms by (auto simp: well_formed_def succeeded_def failed_def commit_caught_def)

subsection \<open>The shape of the results\<close>

lemma mergePullRequest_well_formed:
  "well_formed (\<lambda>e. False) (fst (mergePullRequest E prNumber mergeMethod deleteBranch workingDir dryRun w))"
  unfolding mergePullRequest_def Let_def
proof (rule try_catch_yields [where T = "\<lambda>e. True"])
  show "yields (\<lambda>e. True) (well_formed (\<lambda>e. False))
     (if dryRun
      then ret (succeeded ''Dry run: Would merge pull request''
                  (MergeDryRun prNumber (default_to mergeMethod Merge) (default_to deleteBranch True)))
      else and_then (executeWithClearedTokens E
                       (pr_merge_command prNumber (default_to mergeMethod Merge) (default_to deleteBranch True))
                       workingDir)
             (\<lambda>result. ret (succeeded ''Successfully merged pull request''
                               (MergeDone prNumber (default_to mergeMethod Merge) (fst result)))))"
    by (auto intro!: yields_ret well_formed_succeeded yields_and_then [OF yields_trivial])
qed (simp add: well_formed_failed)









subsection \<open>What the operations add to the log\<close>

lemma appends_getGit: "appends is_git (getGit E workingDir)"
  by (simp add: getGit_def Let_def appends_perform)

lemma appends_checkIsRepo: "appends is_git (checkIsRepo E git)"
  by (simp add: appends_def checkIsRepo_def calls_perform)

lemma appends_revparse: "appends is_git (revparse E git args)"
  by (simp add: appends_def revparse_def calls_perform)

lemma appends_commit_changes: "appends is_git (commit_changes E git msg)"
  by (simp add: appends_def commit_changes_def calls_perform)

lemma appends_switch_branch: "appends is_git (switch_branch E git branch)"
  by (simp add: appends_def switch_branch_def perform_def split: option.splits)

lemma appends_commitAndPush: "appends is_git (commitAndPush E fs msg branch workingDir dryRun)"
  unfolding commitAndPush_def stage_commit_push_def
  by (intro appends_try_catch appends_and_then appends_getGit)
    (auto intro!: appends_ret appends_and_then appends_checkIsRepo appends_perform
      appends_switch_branch appends_commit_changes appends_revparse split: option.splits)

lemma executeGitHubCommand_log:
  "\<exists>cs. calls (snd (executeGitHubCommand E command options w)) = calls w @ cs \<and> cs \<noteq> []
        \<and> (\<forall>path content. WriteFileSync path content \<in> set cs
              \<longrightarrow> path = tempBodyFile E \<and> opt_body options = Some content
                  \<and> last cs = UnlinkSync path
                  \<and> (throws E (calls w @ butlast cs) (UnlinkSync path) = None
                       \<longrightarrow> files (snd (executeGitHubCommand E command options w)) path = None))"
  by (cases "opt_body options")
    (simp_all add: executeGitHubCommand_def body_step_def and_then_def writeFileSync_def
      unlinkSync_def execAsync_def perform_def split: option.splits)

lemma resolve_head_log:
  assumes "resolve_head E headBranch workingDir w = (r, w1)"
  shows "\<exists>cs. calls w1 = calls w @ cs \<and> list_all is_git cs \<and> (cs = [] \<longrightarrow> (\<exists>h. r = Inr h))"
  using assms
  by (auto simp: resolve_head_def getGit_def revparse_def perform_def and_then_def Let_def
      split: if_splits option.splits)

lemma createPullRequest_log:
  "\<exists>cs. calls (snd (createPullRequest E title body baseBranch headBranch workingDir False w)) = calls w @ cs
        \<and> cs \<noteq> []
        \<and> (\<forall>path content. WriteFileSync path content \<in> set cs
              \<longrightarrow> path = tempBodyFile E \<and> content = body
                  \<and> last cs = UnlinkSync path
                  \<and> (throws E (calls w @ butlast cs) (UnlinkSync path) = None
                       \<longrightarrow> files (snd (createPullRequest E title body baseBranch headBranch workingDir False w)) path
                            = None))"
proof -
  obtain r w1 where head: "resolve_head E headBranch workingDir w = (r, w1)"
    by (cases "resolve_head E headBranch workingDir w")
  from resolve_head_log [OF head] obtain cs1 where
    cs1: "calls w1 = calls w @ cs1" "list_all is_git cs1" "cs1 = [] \<longrightarrow> (\<exists>h. r = Inr h)"
    by blast
  have no_write: "WriteFileSync path content \<notin> set cs1" for path content
    using cs1(2) by (auto simp: list_all_iff)
  show ?thesis
  proof (cases r)
    case (Inl e)
    then have "snd (createPullRequest E title body baseBranch headBranch workingDir False w) = w1"
      using head by (simp add: createPullRequest_def Let_def try_catch_def and_then_def)
    with cs1 Inl no_write show ?thesis by auto
  next
    case (Inr h)
    define command where
      "command = pr_create_command title body (default_to baseBranch ''main'') h"
    define options where
      "options = \<lparr>opt_title = Some title, opt_body = Some body, opt_cwd = workingDir\<rparr>"
    have final: "snd (createPullRequest E title body baseBranch headBranch workingDir False w)
            = snd (executeGitHubCommand E command options w1)"
      using head Inr
      by (simp add: createPullRequest_def Let_def try_catch_def and_then_def command_def options_def
          split: prod.splits sum.splits)
    from executeGitHubCommand_log [of E command options w1] obtain cs2 where
      cs2: "calls (snd (executeGitHubCommand E command options w1)) = calls w1 @ cs2" "cs2 \<noteq> []"
      "\<forall>path content. WriteFileSync path content \<in> set cs2
          \<longrightarrow> path = tempBodyFile E \<and> opt_body options = Some content
              \<and> last cs2 = UnlinkSync path
              \<and> (throws E (calls w1 @ butlast cs2) (UnlinkSync path) = None
                   \<longrightarrow> files (snd (executeGitHubCommand E command options w1)) path = None)"
      by blast
    have "calls (snd (createPullRequest E title body baseBranch headBranch workingDir False w))
            = calls w @ (cs1 @ cs2)"
      by (simp add: final cs2(1) cs1(1))
    moreover have "cs1 @ cs2 \<noteq> []"
      using cs2(2) by simp
    moreover have "path = tempBodyFile E \<and> content = body
        \<and> last (cs1 @ cs2) = UnlinkSync path
        \<and> (throws E (calls w @ butlast (cs1 @ cs2)) (UnlinkSync path) = None
             \<longrightarrow> files (snd (createPullRequest E title body baseBranch headBranch workingDir False w)) path = None)"
      if "WriteFileSync path content \<in> set (cs1 @ cs2)" for path content
    proof -
      from that no_write have "WriteFileSync path content \<in> set cs2" by auto
      with cs2(3) have *: "path = tempBodyFile E" "opt_body options = Some content"
        "last cs2 = UnlinkSync path"
        "throws E (calls w1 @ butlast cs2) (UnlinkSync path) = None
           \<longrightarrow> files (snd (executeGitHubCommand E command options w1)) path = None"
        by blast+
      from *(2) have "content = body" by (simp add: options_def)
      moreover have "calls w @ butlast (cs1 @ cs2) = calls w1 @ butlast cs2"
        using cs2(2) by (simp add: butlast_append cs1(1))
      ultimately show ?thesis
        using *(1,3,4) cs2(2) by (simp add: final)
    qed
    ultimately show ?thesis by blast
  qed
qed

subsection \<open>The temporary file of the pull request body\<close>

lemmas run_createPullRequest =
  createPullRequest_def resolve_head_def executeGitHubCommand_def body_step_def
  and_then_def try_catch_def writeFileSync_def unlinkSync_def execAsync_def perform_def
  scripted_def empty_world_def Let_def

text \<open>
  Claim C6, as stated, asks that the temporary file is gone after every call. The
  \<^verbatim>\<open>finally\<close> block of \<^verbatim>\<open>executeGitHubCommand\<close> wraps \<^verbatim>\<open>unlinkSync\<close> in a
  \<^verbatim>\<open>try\<close> with an empty \<^verbatim>\<open>catch\<close> (lines 107 to 112, \<^verbatim>\<open>Ignore cleanup errors\<close>). When
  \<^verbatim>\<open>unlinkSync\<close> throws, as it does for a file that another process holds open, the pull
  request is created and the file is still there with the body in it.
\<close>

theorem createPullRequest_keeps_busy_file_counterexample:
  "success (fst (createPullRequest busy_file_env ''T'' ''B'' None (Some ''feature'') None False empty_world))
   \<and> files (snd (createPullRequest busy_file_env ''T'' ''B'' None (Some ''feature'') None False empty_world))
        (tempBodyFile busy_file_env) = Some ''B''"
  by (simp add: run_createPullRequest busy_file_env_def)

text \<open>
  Claim C6, amended. Whenever a call of \<^verbatim>\<open>createPullRequest\<close> that is not a dry run has
  called \<^verbatim>\<open>writeFileSync\<close>, the file is the temporary file of the body and the content is
  the body; the last collaborator call of the operation is the \<^verbatim>\<open>unlinkSync\<close> of that
  file, on every exit path (a success, a failure of the executed command, an exception of
  the write itself); and the file is not in the store when the operation returns, provided
  that this \<^verbatim>\<open>unlinkSync\<close> is not made to throw by the environment. An error of the
  \<^verbatim>\<open>unlinkSync\<close> is ignored by the source.
\<close>

theorem createPullRequest_removes_temporary_file:
  assumes "createPullRequest E title body baseBranch headBranch workingDir False w = (r, w')"
    and "WriteFileSync path content \<in> set (drop (length (calls w)) (calls w'))"
  shows "path = tempBodyFile E \<and> content = body
       \<and> last (calls w') = UnlinkSync path
       \<and> (throws E (butlast (calls w')) (UnlinkSync path) = None \<longrightarrow> files w' path = None)"
proof -
  from createPullRequest_log [of E title body baseBranch headBranch workingDir w] assms(1)
  obtain cs where cs: "calls w' = calls w @ cs" "cs \<noteq> []"
    "\<forall>path content. WriteFileSync path content \<in> set cs
        \<longrightarrow> path = tempBodyFile E \<and> content = body
            \<and> last cs = UnlinkSync path
            \<and> (throws E (calls w @ butlast cs) (UnlinkSync path) = None \<longrightarrow> files w' path = None)"
    by auto
  from assms(2) cs(1) have "WriteFileSync path content \<in> set cs" by simp
  with cs(3) have "path = tempBodyFile E" "content = body" "last cs = UnlinkSync path"
    "throws E (calls w @ butlast cs) (UnlinkSync path) = None \<longrightarrow> files w' path = None"
    by blast+
  moreover have "last (calls w') = last cs" "butlast (calls w') = calls w @ butlast cs"
    using cs(1,2) by (simp_all add: butlast_append)
  ultimately show ?thesis by simp
qed

theorem createPullRequest_removes_temporary_file_witness:
  "success (fst (createPullRequest quiet_env ''T'' ''B'' None (Some ''feature'') None False empty_world))
   \<and> files (snd (createPullRequest quiet_env ''T'' ''B'' None (Some ''feature'') None False empty_world))
        (tempBodyFile quiet_env) = None
   \<and> \<not> success (fst (createPullRequest offline_env ''T'' ''B'' None (Some ''feature'') None False empty_world))
   \<and> files (snd (createPullRequest offline_env ''T'' ''B'' None (Some ''feature'') None False empty_world))
        (tempBodyFile offline_env) = None
   \<and> \<not> success (fst (createPullRequest disk_full_env ''T'' ''B'' None (Some ''feature'') None False empty_world))
   \<and> files (snd (createPullRequest disk_full_env ''T'' ''B'' None (Some ''feature'') None False empty_world))
        (tempBodyFile disk_full_env) = None"
proof -
  let ?run = "\<lambda>E. createPullRequest E ''T'' ''B'' None (Some ''feature'') None False empty_world"
  have written: "WriteFileSync (tempBodyFile E) ''B'' \<in> set (drop (length (calls empty_world)) (calls (snd (?run E))))"
    for E
    by (simp add: run_createPullRequest split: option.splits)
  have ok: "success (fst (?run quiet_env))"
    by (simp add: run_createPullRequest quiet_env_def)
  have failure: "\<not> success (fst (?run offline_env))"
    by (simp add: run_createPullRequest offline_env_def)
  have exception: "\<not> success (fst (?run disk_full_env))"
    by (simp add: run_createPullRequest disk_full_env_def)
  have unlinked: "throws quiet_env h (UnlinkSync p) = None" "throws offline_env h (UnlinkSync p) = None"
    "throws disk_full_env h (UnlinkSync p) = None" for h p
    by (simp_all add: quiet_env_def offline_env_def disk_full_env_def scripted_def)
  from ok failure exception unlinked
    createPullRequest_removes_temporary_file [OF surjective_pairing written [of quiet_env]]
    createPullRequest_removes_temporary_file [OF surjective_pairing written [of offline_env]]
    createPullRequest_removes_temporary_file [OF surjective_pairing written [of disk_full_env]]
  show ?thesis by simp
qed

subsection \<open>The number of a pull request\<close>

lemma strip_prefix_Some_iff: "strip_prefix p s = Some r \<longleftrightarrow> s = p @ r"
proof (induction p arbitrary: s)
  case Nil
  then show ?case by auto
next
  case (Cons a p)
  then show ?case by (cases s) auto
qed

lemma takeWhile_id: "list_all P xs \<Longrightarrow> takeWhile P xs = xs"
  by (simp add: list_all_iff)

lemma dropWhile_nil: "list_all P xs \<Longrightarrow> dropWhile P xs = []"
  by (simp add: list_all_iff)

lemma match_pull_unfold:
  "match_pull (''/pull/'' @ r) =
     (if r \<noteq> [] \<and> list_all is_digit r then Some (''/pull/'' @ r, [r], []) else None)"
proof (cases "list_all is_digit r")
  case True
  then show ?thesis by (simp add: match_pull_def takeWhile_id dropWhile_nil)
next
  case False
  then have "dropWhile is_digit r \<noteq> []" by (simp add: list_all_iff)
  with False show ?thesis by (simp add: match_pull_def Let_def)
qed

lemma match_pull_Some_iff:
  "match_pull s = Some (m, caps, rest) \<longleftrightarrow>
     (\<exists>ds. s = ''/pull/'' @ ds \<and> ds \<noteq> [] \<and> list_all is_digit ds \<and> m = s \<and> caps = [ds] \<and> rest = [])"
proof (cases "strip_prefix ''/pull/'' s")
  case None
  then have "\<And>ds. s \<noteq> ''/pull/'' @ ds"
    using strip_prefix_Some_iff [of "''/pull/''" s] by auto
  with None show ?thesis by (auto simp: match_pull_def)
next
  case (Some r)
  then have s: "s = ''/pull/'' @ r" by (simp add: strip_prefix_Some_iff)
  show ?thesis unfolding s match_pull_unfold by auto
qed

text \<open>The digits at the end of a string that ends in \<^verbatim>\<open>/pull/\<close> and digits are
  determined by the string.\<close>

lemma trailing_digits:
  assumes "list_all is_digit ds"
  shows "rev (takeWhile is_digit (rev (p @ ''/pull/'' @ ds))) = ds"
proof -
  have "rev (p @ ''/pull/'' @ ds) = rev ds @ CHR ''/'' # (''llup/'' @ rev p)"
    by simp
  moreover have "takeWhile is_digit (rev ds @ CHR ''/'' # (''llup/'' @ rev p)) = rev ds"
    using assms by (subst takeWhile_append2) (auto simp: list_all_iff is_digit_def)
  ultimately show ?thesis by simp
qed

lemma search_match_pull_sound:
  assumes "search match_pull acc s = Some (pre, m, caps, rest)"
  shows "\<exists>p ds. s = p @ ''/pull/'' @ ds \<and> ds \<noteq> [] \<and> list_all is_digit ds \<and> caps = [ds]"
  using assms
proof (induction s arbitrary: acc)
  case Nil
  then show ?case by (simp add: match_pull_def)
next
  case (Cons c cs)
  show ?case
  proof (cases "match_pull (c # cs)")
    case None
    with Cons.prems have "search match_pull (acc @ [c]) cs = Some (pre, m, caps, rest)" by simp
    from Cons.IH [OF this] obtain p ds where
      "cs = p @ ''/pull/'' @ ds" "ds \<noteq> []" "list_all is_digit ds" "caps = [ds]" by blast
    then have "c # cs = (c # p) @ ''/pull/'' @ ds" by simp
    with \<open>ds \<noteq> []\<close> \<open>list_all is_digit ds\<close> \<open>caps = [ds]\<close> show ?thesis by blast
  next
    case (Some t)
    with Cons.prems have "match_pull (c # cs) = Some (m, caps, rest)" by (cases t) auto
    then obtain ds where "c # cs = [] @ ''/pull/'' @ ds" "ds \<noteq> []" "list_all is_digit ds" "caps = [ds]"
      by (auto simp: match_pull_Some_iff)
    then show ?thesis by blast
  qed
qed

lemma search_match_pull_complete:
  assumes "list_all is_digit ds" and "ds \<noteq> []"
  shows "\<exists>pre m rest. search match_pull acc (p @ ''/pull/'' @ ds) = Some (pre, m, [ds], rest)"
proof (induction p arbitrary: acc)
  case Nil
  have "match_pull (CHR ''/'' # ''pull/'' @ ds) = Some (''/pull/'' @ ds, [ds], [])"
    using match_pull_unfold [of ds] assms by simp
  then show ?case by simp
next
  case (Cons c p)
  show ?case
  proof (cases "match_pull (c # p @ ''/pull/'' @ ds)")
    case None
    with Cons.IH [of "acc @ [c]"] show ?thesis by simp
  next
    case (Some t)
    obtain m caps rest where t: "t = (m, caps, rest)" by (cases t)
    with Some obtain ds' where ds': "c # p @ ''/pull/'' @ ds = ''/pull/'' @ ds'" "list_all is_digit ds'"
      "caps = [ds']"
      by (auto simp: match_pull_Some_iff)
    have e: "(c # p) @ ''/pull/'' @ ds = [] @ ''/pull/'' @ ds'"
      using ds'(1) by simp
    have "ds = rev (takeWhile is_digit (rev ((c # p) @ ''/pull/'' @ ds)))"
      by (rule trailing_digits [OF assms(1), symmetric])
    also have "\<dots> = rev (takeWhile is_digit (rev ([] @ ''/pull/'' @ ds')))"
      by (simp only: e)
    also have "\<dots> = ds'"
      by (rule trailing_digits [OF ds'(2)])
    finally have "ds' = ds" by simp
    with Some t ds'(3) show ?thesis by simp
  qed
qed

lemma pull_number_Some_iff:
  "pull_number url = Some ds \<longleftrightarrow> (\<exists>p. url = p @ ''/pull/'' @ ds \<and> ds \<noteq> [] \<and> list_all is_digit ds)"
proof
  assume "pull_number url = Some ds"
  then obtain pre m caps rest where s: "search match_pull [] url = Some (pre, m, caps, rest)"
    and first: "(case caps of [] \<Rightarrow> None | prNumber # _ \<Rightarrow> Some prNumber) = Some ds"
    by (auto simp: pull_number_def split: option.splits)
  from search_match_pull_sound [OF s] first
  show "\<exists>p. url = p @ ''/pull/'' @ ds \<and> ds \<noteq> [] \<and> list_all is_digit ds" by auto
next
  assume "\<exists>p. url = p @ ''/pull/'' @ ds \<and> ds \<noteq> [] \<and> list_all is_digit ds"
  then obtain p where "url = p @ ''/pull/'' @ ds" "ds \<noteq> []" "list_all is_digit ds" by blast
  with search_match_pull_complete [of ds "[]" p] show "pull_number url = Some ds"
    by (auto simp: pull_number_def)
qed

lemma pull_number_None_iff:
  "pull_number url = None \<longleftrightarrow> \<not> (\<exists>p ds. url = p @ ''/pull/'' @ ds \<and> ds \<noteq> [] \<and> list_all is_digit ds)"
proof (cases "pull_number url")
  case None
  with pull_number_Some_iff [of url] show ?thesis by (metis option.distinct(1))
next
  case (Some ds)
  with pull_number_Some_iff [of url ds] show ?thesis by auto
qed

lemma pull_number_pull_url: "pull_number pull_url = Some ''42''"
  unfolding pull_number_Some_iff
  by (rule exI [of _ "''https://github.com/org/repo''"]) (simp add: pull_url_def is_digit_def)

lemma trim_pull_url: "trim (pull_url @ [newline]) = pull_url"
  by (simp add: pull_url_def newline_def trim_def is_space_def)

subsection \<open>The composite workflow\<close>

lemma mergePullRequest_failure_has_no_details:
  assumes "\<not> success (fst (mergePullRequest E prNumber mergeMethod deleteBranch workingDir dryRun w))"
  shows "details (fst (mergePullRequest E prNumber mergeMethod deleteBranch workingDir dryRun w)) = None"
  using assms well_formed_fields [OF mergePullRequest_well_formed [of E prNumber mergeMethod deleteBranch workingDir dryRun w]]
  by simp

lemma createPullRequest_extends_log:
  "calls (snd (createPullRequest E title body baseBranch headBranch workingDir False w)) \<noteq> calls w"
  using createPullRequest_log [of E title body baseBranch headBranch workingDir w] by auto

lemma mergePullRequest_extends_log:
  "calls (snd (mergePullRequest E prNumber mergeMethod deleteBranch workingDir False w)) \<noteq> calls w"
  by (simp add: snd_mergePullRequest snd_executeWithClearedTokens)

lemma commitAndPush_git_calls:
  "list_all is_git (drop (length (calls w)) (calls (snd (commitAndPush E fs msg branch workingDir dryRun w))))"
  using appendsD [OF appends_commitAndPush, of E fs msg branch workingDir dryRun w] by auto

text \<open>
  Claim C2. Let the commit step of a workflow that is not a dry run return \<open>commitResult\<close>
  and leave the world \<open>w1\<close>. If it failed, the workflow returns the pair of that very result
  and that very world: nothing is wrapped, and no collaborator is called after the commit
  step (the calls made are calls on the git handle, no command is executed). If it
  succeeded and the pull request step, run in \<open>w1\<close>, returns a failure \<open>prResult\<close> and
  leaves \<open>w2\<close>, the workflow returns \<open>prResult\<close> and \<open>w2\<close>. The last two conjuncts are why
  an unchanged log means that a step was not run: \<^verbatim>\<open>createPullRequest\<close> and
  \<^verbatim>\<open>mergePullRequest\<close>, when not a dry run, always add to the log.
\<close>

theorem completeGitWorkflow_propagates_failure:
  assumes "commitAndPush E fs msg branch wd False w = (commitResult, w1)"
    and "createPullRequest E title body (Some (default_to base ''main'')) branch wd False w1 = (prResult, w2)"
  shows "(\<not> success commitResult \<longrightarrow>
            completeGitWorkflow E fs msg title body branch base autoMerge wd False w = (commitResult, w1)
            \<and> list_all is_git (drop (length (calls w)) (calls w1)))
       \<and> (success commitResult \<and> \<not> success prResult \<longrightarrow>
            completeGitWorkflow E fs msg title body branch base autoMerge wd False w = (prResult, w2))
       \<and> calls (snd (createPullRequest E title' body' base' head' wd' False w')) \<noteq> calls w'
       \<and> calls (snd (mergePullRequest E prNumber' mergeMethod' deleteBranch' wd' False w')) \<noteq> calls w'"
proof (intro conjI impI)
  assume "\<not> success commitResult"
  with assms(1) show "completeGitWorkflow E fs msg title body branch base autoMerge wd False w = (commitResult, w1)"
    by (simp add: completeGitWorkflow_def Let_def try_catch_def and_then_def await_def)
next
  from commitAndPush_git_calls [of w E fs msg branch wd False] assms(1)
  show "list_all is_git (drop (length (calls w)) (calls w1))" by simp
next
  assume "success commitResult \<and> \<not> success prResult"
  with assms show "completeGitWorkflow E fs msg title body branch base autoMerge wd False w = (prResult, w2)"
    by (simp add: completeGitWorkflow_def Let_def try_catch_def and_then_def await_def)
qed (rule createPullRequest_extends_log mergePullRequest_extends_log)+

lemmas run_commitAndPush =
  commitAndPush_def commit_caught_def stage_commit_push_def getGit_def checkIsRepo_def switch_branch_def commit_changes_def revparse_def
  and_then_def try_catch_def perform_def scripted_def empty_world_def Let_def

theorem completeGitWorkflow_propagates_failure_witness:
  "completeGitWorkflow rejecting_env [''a.txt''] ''fix: typo'' ''T'' ''B'' None None True None False empty_world
     = (failed ''Failed to commit and push'' ''push rejected'',
        \<lparr>calls = [SimpleGit ''/repo'', CheckIsRepo ''/repo'', Status ''/repo'', Add ''/repo'' [''a.txt''],
                  Commit ''/repo'' ''fix: typo'', RevParse ''/repo'' [''--abbrev-ref'', ''HEAD''],
                  Push ''/repo'' ''origin'' ''feature''],
         files = Map.empty\<rparr>)
   \<and> fst (completeGitWorkflow offline_env [''a.txt''] ''fix: typo'' ''T'' ''B'' None None True None False empty_world)
     = failed ''Failed to create pull request''
         (''Failed to create pull request: Command failed: gh: not logged in'' @ [newline]
          @ ''Stdout: '' @ [newline] @ ''Stderr: gh: not logged in'')
   \<and> list_all (\<lambda>c. case c of Exec command cwd \<Rightarrow> command = powerShellCommand
           (title_step \<lparr>opt_title = Some ''T'', opt_body = Some ''B'', opt_cwd = None\<rparr>
              (replace_first (match_unquoted ''--body'') (''--body-file '' @ [dquote] @ tempBodyFile offline_env @ [dquote])
                (replace_first (match_quoted ''--body'' False) (''--body-file '' @ [dquote] @ tempBodyFile offline_env @ [dquote])
                  (pr_create_command ''T'' ''B'' ''main'' ''feature'')))) | _ \<Rightarrow> True)
       (calls (snd (completeGitWorkflow offline_env [''a.txt''] ''fix: typo'' ''T'' ''B'' None None True None False empty_world)))"
proof -
  let ?commit = "\<lambda>E. commitAndPush E [''a.txt''] ''fix: typo'' None None False empty_world"
  let ?pr = "\<lambda>E. createPullRequest E ''T'' ''B'' (Some (default_to None ''main'')) None None False (snd (?commit E))"
  have rejected: "?commit rejecting_env
     = (failed ''Failed to commit and push'' ''push rejected'',
        \<lparr>calls = [SimpleGit ''/repo'', CheckIsRepo ''/repo'', Status ''/repo'', Add ''/repo'' [''a.txt''],
                  Commit ''/repo'' ''fix: typo'', RevParse ''/repo'' [''--abbrev-ref'', ''HEAD''],
                  Push ''/repo'' ''origin'' ''feature''],
         files = Map.empty\<rparr>)"
    by (simp add: run_commitAndPush rejecting_env_def new_Error_def)
  have committed: "success (fst (?commit offline_env))"
    by (simp add: run_commitAndPush offline_env_def succeeded_def)
  have offline: "?pr offline_env
     = (failed ''Failed to create pull request''
         (''Failed to create pull request: Command failed: gh: not logged in'' @ [newline]
          @ ''Stdout: '' @ [newline] @ ''Stderr: gh: not logged in''),
        \<lparr>calls = calls (snd (?commit offline_env)) @
           [SimpleGit ''/repo'', RevParse ''/repo'' [''--abbrev-ref'', ''HEAD''],
            WriteFileSync (tempBodyFile offline_env) ''B'',
            Exec (powerShellCommand
              (title_step \<lparr>opt_title = Some ''T'', opt_body = Some ''B'', opt_cwd = None\<rparr>
                (replace_first (match_unquoted ''--body'') (''--body-file '' @ [dquote] @ tempBodyFile offline_env @ [dquote])
                  (replace_first (match_quoted ''--body'' False) (''--body-file '' @ [dquote] @ tempBodyFile offline_env @ [dquote])
                    (pr_create_command ''T'' ''B'' ''main'' ''feature''))))) ''/repo'',
            UnlinkSync (tempBodyFile offline_env)],
         files = Map.empty\<rparr>)"
    by (simp add: run_createPullRequest run_commitAndPush offline_env_def exec_error_def
        command_failed_def new_Error_def)
  from completeGitWorkflow_propagates_failure
         [OF surjective_pairing surjective_pairing, of rejecting_env "[''a.txt'']" "''fix: typo''" None None
            empty_world "''T''" "''B''" None True]
       rejected
  have first: "completeGitWorkflow rejecting_env [''a.txt''] ''fix: typo'' ''T'' ''B'' None None True None False empty_world
        = ?commit rejecting_env"
    by (simp add: failed_def)
  from completeGitWorkflow_propagates_failure
         [OF surjective_pairing surjective_pairing, of offline_env "[''a.txt'']" "''fix: typo''" None None
            empty_world "''T''" "''B''" None True]
       committed offline
  have second: "completeGitWorkflow offline_env [''a.txt''] ''fix: typo'' ''T'' ''B'' None None True None False empty_world
        = ?pr offline_env"
    by (simp add: failed_def)
  show ?thesis
    unfolding first second rejected offline
    by (simp add: run_commitAndPush offline_env_def)
qed

text \<open>
  Claim C9. In a workflow with automatic merge whose commit and pull request steps
  succeeded and whose pull request URL gives a number, a merge step that returns a failure
  changes nothing in the result of the workflow: it is a success with the message
  \<^verbatim>\<open>Successfully completed Git workflow\<close>, without an error, and the \<^verbatim>\<open>merge\<close> entry of its
  details is absent, because a failure result has no details.
\<close>

theorem completeGitWorkflow_ignores_merge_failure:
  assumes "commitAndPush E fs msg branch wd False w = (commitResult, w1)"
    and "success commitResult"
    and "createPullRequest E title body (Some (default_to base ''main'')) branch wd False w1 = (prResult, w2)"
    and "success prResult"
    and "details_url (details prResult) = Some url"
    and "pull_number url = Some prNumber"
    and "mergePullRequest E prNumber (Some Merge) (Some True) wd False w2 = (mergeResult, w3)"
    and "\<not> success mergeResult"
  shows "completeGitWorkflow E fs msg title body branch base True wd False w =
           (\<lparr>success = True, message = ''Successfully completed Git workflow'',
              details = Some (WorkflowDone (details commitResult) (details prResult) None),
              error = None\<rparr>, w3)"
proof -
  from assms(6) have "url \<noteq> []"
    by (auto simp: pull_number_Some_iff)
  with assms(5,6,7) have merge: "auto_merge E True prResult wd w2 = (Inr (Some mergeResult), w3)"
    by (simp add: auto_merge_def and_then_def await_def)
  from assms(7,8) mergePullRequest_failure_has_no_details [of E prNumber "Some Merge" "Some True" wd False w2]
  have "details mergeResult = None" by simp
  with assms(1-4) merge show ?thesis
    by (simp add: completeGitWorkflow_def Let_def try_catch_def and_then_def await_def succeeded_def)
qed

lemmas run_mergePullRequest =
  mergePullRequest_def executeWithClearedTokens_def execAsync_def perform_def and_then_def try_catch_def
  scripted_def Let_def

theorem completeGitWorkflow_ignores_merge_failure_witness:
  "\<not> success (fst (mergePullRequest merge_conflict_env ''42'' (Some Merge) (Some True) None False
       (snd (createPullRequest merge_conflict_env ''T'' ''B'' (Some ''main'') None None False
          (snd (commitAndPush merge_conflict_env [''a.txt''] ''fix: typo'' None None False empty_world))))))
   \<and> fst (completeGitWorkflow merge_conflict_env [''a.txt''] ''fix: typo'' ''T'' ''B'' None None True None False empty_world)
       = \<lparr>success = True, message = ''Successfully completed Git workflow'',
           details = Some (WorkflowDone (Some (CommitDone ''abc123'' ''feature'' 1 2 3))
                             (Some (PullRequestDone pull_url ''T'' ''main'' ''feature'')) None),
           error = None\<rparr>"
proof -
  let ?E = merge_conflict_env
  let ?commit = "commitAndPush ?E [''a.txt''] ''fix: typo'' None None False empty_world"
  let ?pr = "createPullRequest ?E ''T'' ''B'' (Some (default_to None ''main'')) None None False (snd ?commit)"
  let ?merge = "mergePullRequest ?E ''42'' (Some Merge) (Some True) None False (snd ?pr)"
  have commit: "fst ?commit = succeeded ''Successfully committed and pushed changes''
                                 (CommitDone ''abc123'' ''feature'' 1 2 3)"
    by (simp add: run_commitAndPush merge_conflict_env_def)
  have pr: "fst ?pr = succeeded ''Successfully created pull request''
                         (PullRequestDone pull_url ''T'' ''main'' ''feature'')"
    by (simp add: run_createPullRequest run_commitAndPush merge_conflict_env_def trim_pull_url)
  have merge: "\<not> success (fst ?merge)"
    by (simp add: run_mergePullRequest run_createPullRequest run_commitAndPush merge_conflict_env_def
        failed_def)
  have commit_ok: "success (fst ?commit)"
    using commit by (simp add: succeeded_def)
  have pr_ok: "success (fst ?pr)"
    using pr by (simp add: succeeded_def)
  have url: "details_url (details (fst ?pr)) = Some pull_url"
    using pr by (simp add: succeeded_def)
  have merge_run: "?merge = (fst ?merge, snd ?merge)"
    by simp
  from completeGitWorkflow_ignores_merge_failure
         [where E = ?E and base = None and title = "''T''" and body = "''B''",
          OF surjective_pairing commit_ok surjective_pairing pr_ok url pull_number_pull_url merge_run merge]
  have "completeGitWorkflow ?E [''a.txt''] ''fix: typo'' ''T'' ''B'' None None True None False empty_world =
          (\<lparr>success = True, message = ''Successfully completed Git workflow'',
             details = Some (WorkflowDone (details (fst ?commit)) (details (fst ?pr)) None),
             error = None\<rparr>, snd ?merge)" .
  with merge commit pr show ?thesis
    by (simp add: succeeded_def)
qed

text \<open>
  Claim C3. In a workflow with automatic merge whose commit and pull request steps
  succeeded, let \<open>url\<close> be the URL in the details of the pull request. If \<open>url\<close> ends in
  \<^verbatim>\<open>/pull/\<close> and one or more digits, the workflow runs \<^verbatim>\<open>mergePullRequest\<close> with exactly
  these digits, the method merge and the delete flag true, in the world the pull request
  step left: the one call that this adds to the log is the execution of
  \<^verbatim>\<open>gh pr merge <digits> --merge --delete-branch\<close>. If \<open>url\<close> has no such ending, the workflow
  ends in the world the pull request step left, so no merge was run, and it is a success
  without a \<^verbatim>\<open>merge\<close> entry.
\<close>

theorem completeGitWorkflow_auto_merge:
  assumes "commitAndPush E fs msg branch wd False w = (commitResult, w1)"
    and "success commitResult"
    and "createPullRequest E title body (Some (default_to base ''main'')) branch wd False w1 = (prResult, w2)"
    and "success prResult"
    and "details_url (details prResult) = Some url"
  shows "(url = p @ ''/pull/'' @ ds \<and> ds \<noteq> [] \<and> list_all is_digit ds \<longrightarrow>
            completeGitWorkflow E fs msg title body branch base True wd False w =
              (succeeded ''Successfully completed Git workflow''
                 (WorkflowDone (details commitResult) (details prResult)
                    (details (fst (mergePullRequest E ds (Some Merge) (Some True) wd False w2)))),
               snd (mergePullRequest E ds (Some Merge) (Some True) wd False w2))
            \<and> calls (snd (completeGitWorkflow E fs msg title body branch base True wd False w)) =
                calls w2 @ [Exec (powerShellCommand (''gh pr merge '' @ ds @ '' --merge --delete-branch''))
                              (or_else wd (process_cwd E))])
       \<and> ((\<forall>p ds. url = p @ ''/pull/'' @ ds \<longrightarrow> ds = [] \<or> \<not> list_all is_digit ds) \<longrightarrow>
            completeGitWorkflow E fs msg title body branch base True wd False w =
              (succeeded ''Successfully completed Git workflow''
                 (WorkflowDone (details commitResult) (details prResult) None), w2))"
proof (intro conjI impI)
  assume match: "url = p @ ''/pull/'' @ ds \<and> ds \<noteq> [] \<and> list_all is_digit ds"
  then have number: "pull_number url = Some ds" and "url \<noteq> []"
    by (auto simp: pull_number_Some_iff)
  with assms(5) have "auto_merge E True prResult wd w2 =
      (Inr (Some (fst (mergePullRequest E ds (Some Merge) (Some True) wd False w2))),
       snd (mergePullRequest E ds (Some Merge) (Some True) wd False w2))"
    by (simp add: auto_merge_def and_then_def await_eq)
  with assms(1-4) show run: "completeGitWorkflow E fs msg title body branch base True wd False w =
      (succeeded ''Successfully completed Git workflow''
         (WorkflowDone (details commitResult) (details prResult)
            (details (fst (mergePullRequest E ds (Some Merge) (Some True) wd False w2)))),
       snd (mergePullRequest E ds (Some Merge) (Some True) wd False w2))"
    by (simp add: completeGitWorkflow_def Let_def try_catch_def and_then_def await_def)
  show "calls (snd (completeGitWorkflow E fs msg title body branch base True wd False w)) =
          calls w2 @ [Exec (powerShellCommand (''gh pr merge '' @ ds @ '' --merge --delete-branch''))
                        (or_else wd (process_cwd E))]"
    unfolding run
    by (simp add: snd_mergePullRequest snd_executeWithClearedTokens pr_merge_command_eq mergeFlag_def)
next
  assume "\<forall>p ds. url = p @ ''/pull/'' @ ds \<longrightarrow> ds = [] \<or> \<not> list_all is_digit ds"
  then have "pull_number url = None"
    unfolding pull_number_None_iff by blast
  with assms(5) have "auto_merge E True prResult wd w2 = (Inr None, w2)"
    by (simp add: auto_merge_def)
  with assms(1-4) show "completeGitWorkflow E fs msg title body branch base True wd False w =
      (succeeded ''Successfully completed Git workflow''
         (WorkflowDone (details commitResult) (details prResult) None), w2)"
    by (simp add: completeGitWorkflow_def Let_def try_catch_def and_then_def await_def)
qed

lemma pull_number_issue_url: "pull_number issue_url = None"
  by (simp add: issue_url_def pull_number_def match_pull_def)

lemma trim_issue_url: "trim (issue_url @ [newline]) = issue_url"
  by (simp add: issue_url_def newline_def trim_def is_space_def)

theorem completeGitWorkflow_auto_merge_witness:
  "calls (snd (completeGitWorkflow quiet_env [''a.txt''] ''fix: typo'' ''T'' ''B'' None None True None False empty_world))
     = calls (snd (createPullRequest quiet_env ''T'' ''B'' (Some ''main'') None None False
                (snd (commitAndPush quiet_env [''a.txt''] ''fix: typo'' None None False empty_world))))
       @ [Exec (powerShellCommand ''gh pr merge 42 --merge --delete-branch'') ''/repo'']
   \<and> completeGitWorkflow issue_env [''a.txt''] ''fix: typo'' ''T'' ''B'' None None True None False empty_world
     = (succeeded ''Successfully completed Git workflow''
          (WorkflowDone (Some (CommitDone ''abc123'' ''feature'' 1 2 3))
             (Some (PullRequestDone issue_url ''T'' ''main'' ''feature''))
             None),
        snd (createPullRequest issue_env ''T'' ''B'' (Some ''main'') None None False
               (snd (commitAndPush issue_env [''a.txt''] ''fix: typo'' None None False empty_world))))"
proof -
  let ?commit = "\<lambda>E. commitAndPush E [''a.txt''] ''fix: typo'' None None False empty_world"
  let ?pr = "\<lambda>E. createPullRequest E ''T'' ''B'' (Some (default_to None ''main'')) None None False (snd (?commit E))"
  have commit: "fst (?commit E) =
      succeeded ''Successfully committed and pushed changes'' (CommitDone ''abc123'' ''feature'' 1 2 3)"
    if "E = scripted (\<lambda>h c. None) out" for E out
    unfolding that by (simp add: run_commitAndPush)
  have pr: "fst (?pr E) =
      succeeded ''Successfully created pull request'' (PullRequestDone (trim out) ''T'' ''main'' ''feature'')"
    if "E = scripted (\<lambda>h c. None) out" for E out
    unfolding that by (simp add: run_createPullRequest run_commitAndPush)
  have commit_ok: "success (fst (?commit E))" if "E = scripted (\<lambda>h c. None) out" for E out
    using commit [OF that] by (simp add: succeeded_def)
  have pr_ok: "success (fst (?pr E))" if "E = scripted (\<lambda>h c. None) out" for E out
    using pr [OF that] by (simp add: succeeded_def)
  have url: "details_url (details (fst (?pr quiet_env))) = Some pull_url"
    using pr [OF quiet_env_def] by (simp add: succeeded_def trim_pull_url)
  have issue: "details_url (details (fst (?pr issue_env))) = Some issue_url"
    using pr [OF issue_env_def] by (simp add: succeeded_def trim_issue_url)
  have no_match: "\<forall>p ds. issue_url = p @ ''/pull/'' @ ds \<longrightarrow> ds = [] \<or> \<not> list_all is_digit ds"
    using pull_number_issue_url unfolding pull_number_None_iff by blast
  have match: "pull_url = ''https://github.com/org/repo'' @ ''/pull/'' @ ''42'' \<and> ''42'' \<noteq> [] \<and> list_all is_digit ''42''"
    by (simp add: pull_url_def is_digit_def)
  note merged =
    completeGitWorkflow_auto_merge
      [where E = quiet_env and base = None and title = "''T''" and body = "''B''" and wd = None
         and p = "''https://github.com/org/repo''" and ds = "''42''",
       OF surjective_pairing commit_ok [OF quiet_env_def] surjective_pairing pr_ok [OF quiet_env_def] url,
       THEN conjunct1, THEN mp, OF match, THEN conjunct2]
  note skipped =
    completeGitWorkflow_auto_merge
      [where E = issue_env and base = None and title = "''T''" and body = "''B''" and wd = None,
       OF surjective_pairing commit_ok [OF issue_env_def] surjective_pairing pr_ok [OF issue_env_def] issue,
       THEN conjunct2, THEN mp, OF no_match]
  have cwd: "process_cwd quiet_env = ''/repo''"
    by (simp add: quiet_env_def scripted_def)
  from merged skipped commit [OF issue_env_def] pr [OF issue_env_def] cwd
  show ?thesis
    by (simp add: trim_issue_url)
qed

subsection \<open>The branch step of the commit\<close>

lemma appends_stage_commit_push:
  "appends (\<lambda>c. \<not> is_plain_switch c) (stage_commit_push E git fs msg)"
  unfolding stage_commit_push_def
proof (intro appends_and_then appends_ret appends_perform)
  show "appends (\<lambda>c. \<not> is_plain_switch c) (commit_changes E git msg)"
    by (simp add: appends_def commit_changes_def calls_perform)
  show "appends (\<lambda>c. \<not> is_plain_switch c) (revparse E git [''--abbrev-ref'', ''HEAD''])"
    by (simp add: appends_def revparse_def calls_perform)
qed simp_all

lemma commitAndPush_after_checks:
  assumes "dir = or_else workingDir (process_cwd E)"
    and "throws E (calls w) (SimpleGit dir) = None"
    and "throws E (calls w @ [SimpleGit dir]) (CheckIsRepo dir) = None"
    and "is_repo E (calls w @ [SimpleGit dir]) dir"
    and "throws E (calls w @ [SimpleGit dir, CheckIsRepo dir]) (Status dir) = None"
  shows "commitAndPush E fs msg branch workingDir False w =
           try_catch
             (and_then (switch_branch E dir branch)
                (\<lambda>early. case early of Some r \<Rightarrow> ret r | None \<Rightarrow> stage_commit_push E dir fs msg))
             commit_caught
             (w\<lparr>calls := calls w @ [SimpleGit dir, CheckIsRepo dir, Status dir]\<rparr>)"
  using assms(2-5) unfolding assms(1)
  by (simp add: commitAndPush_def getGit_def checkIsRepo_def perform_def and_then_def try_catch_def Let_def)

lemma commitAndPush_branch_step:
  assumes "dir = or_else workingDir (process_cwd E)"
    and "h = calls w @ [SimpleGit dir, CheckIsRepo dir, Status dir]"
    and "throws E (calls w) (SimpleGit dir) = None"
    and "throws E (calls w @ [SimpleGit dir]) (CheckIsRepo dir) = None"
    and "is_repo E (calls w @ [SimpleGit dir]) dir"
    and "throws E (calls w @ [SimpleGit dir, CheckIsRepo dir]) (Status dir) = None"
    and "branch \<noteq> []"
    and "commitAndPush E fs msg (Some branch) workingDir False w = (r, w')"
  shows "\<exists>cs. list_all (\<lambda>c. \<not> is_plain_switch c) cs \<and>
           (case throws E h (CheckoutBranch dir branch ''HEAD'') of
              None \<Rightarrow> calls w' = h @ [CheckoutBranch dir branch ''HEAD''] @ cs
            | Some createError \<Rightarrow>
                (case throws E (h @ [CheckoutBranch dir branch ''HEAD'']) (Checkout dir branch) of
                   None \<Rightarrow> calls w' = h @ [CheckoutBranch dir branch ''HEAD'', Checkout dir branch] @ cs
                 | Some switchError \<Rightarrow>
                     calls w' = h @ [CheckoutBranch dir branch ''HEAD'', Checkout dir branch]
                     \<and> r = failed ''Failed to commit and push''
                             (''Failed to create or switch to branch '' @ branch @ '': ''
                              @ error_toString switchError)))"
proof -
  define w3 where "w3 = w\<lparr>calls := h\<rparr>"
  define rest where "rest = (\<lambda>early. case early of Some r \<Rightarrow> ret r | None \<Rightarrow> stage_commit_push E dir fs msg)"
  have run: "try_catch (and_then (switch_branch E dir (Some branch)) rest)
               commit_caught w3 = (r, w')"
    using commitAndPush_after_checks [OF assms(1,3-6), of fs msg "Some branch"] assms(8)
    by (simp add: w3_def rest_def assms(2))
  have staged: "\<exists>cs. list_all (\<lambda>c. \<not> is_plain_switch c) cs
                  \<and> calls (snd (try_catch (stage_commit_push E dir fs msg) on_error v)) = calls v @ cs"
    for on_error v
    using appendsD [OF appends_try_catch [OF appends_stage_commit_push], of E dir fs msg on_error v]
    by blast
  show ?thesis
  proof (cases "throws E h (CheckoutBranch dir branch ''HEAD'')")
    case None
    then have "switch_branch E dir (Some branch) w3 =
        (Inr None, w3\<lparr>calls := h @ [CheckoutBranch dir branch ''HEAD'']\<rparr>)"
      using assms(7) by (simp add: switch_branch_def perform_def w3_def)
    with run have "try_catch (stage_commit_push E dir fs msg)
        commit_caught
        (w3\<lparr>calls := h @ [CheckoutBranch dir branch ''HEAD'']\<rparr>) = (r, w')"
      by (simp add: try_catch_def and_then_def rest_def)
    with staged [of commit_caught
                    "w3\<lparr>calls := h @ [CheckoutBranch dir branch ''HEAD'']\<rparr>"] None
    show ?thesis by auto
  next
    case (Some createError)
    show ?thesis
    proof (cases "throws E (h @ [CheckoutBranch dir branch ''HEAD'']) (Checkout dir branch)")
      case None
      with Some have "switch_branch E dir (Some branch) w3 =
          (Inr None, w3\<lparr>calls := h @ [CheckoutBranch dir branch ''HEAD'', Checkout dir branch]\<rparr>)"
        using assms(7) by (simp add: switch_branch_def perform_def w3_def)
      with run have "try_catch (stage_commit_push E dir fs msg)
          commit_caught
          (w3\<lparr>calls := h @ [CheckoutBranch dir branch ''HEAD'', Checkout dir branch]\<rparr>) = (r, w')"
        by (simp add: try_catch_def and_then_def rest_def)
      with staged [of commit_caught
                      "w3\<lparr>calls := h @ [CheckoutBranch dir branch ''HEAD'', Checkout dir branch]\<rparr>"]
        Some None
      show ?thesis by auto
    next
      case switch: (Some switchError)
      with Some have "switch_branch E dir (Some branch) w3 =
          (Inr (Some (failed ''Failed to commit and push''
                        (''Failed to create or switch to branch '' @ branch @ '': ''
                         @ error_toString switchError))),
           w3\<lparr>calls := h @ [CheckoutBranch dir branch ''HEAD'', Checkout dir branch]\<rparr>)"
        using assms(7) by (simp add: switch_branch_def perform_def w3_def)
      with run have "r = failed ''Failed to commit and push''
                            (''Failed to create or switch to branch '' @ branch @ '': ''
                             @ error_toString switchError)"
        and "w' = w3\<lparr>calls := h @ [CheckoutBranch dir branch ''HEAD'', Checkout dir branch]\<rparr>"
        by (simp_all add: try_catch_def and_then_def rest_def)
      with Some switch show ?thesis
        by (intro exI [of _ "[]"]) simp
    qed
  qed
qed

text \<open>
  Claim C8. Take a commit that is not a dry run, with a non-empty branch name, in a valid
  repository: the git handle is made, the repository check answers true and the status
  query returns, after which the log is \<open>h\<close>. Then the next call is
  \<^verbatim>\<open>checkoutBranch(branch, 'HEAD')\<close>. If it returns, the operation makes no plain switch
  at all. If it throws, the call after it is \<^verbatim>\<open>checkout(branch)\<close>, and this is the only
  plain switch in the whole log of the operation. If that throws as well, the operation
  ends there: the log has nothing after the two attempts (no staging, commit or push, no
  second attempt), and the result is a failure whose error names the branch and gives the
  error of the plain switch as text.
\<close>

theorem commitAndPush_branch_fallback:
  assumes "dir = or_else workingDir (process_cwd E)"
    and "h = calls w @ [SimpleGit dir, CheckIsRepo dir, Status dir]"
    and "throws E (calls w) (SimpleGit dir) = None"
    and "throws E (calls w @ [SimpleGit dir]) (CheckIsRepo dir) = None"
    and "is_repo E (calls w @ [SimpleGit dir]) dir"
    and "throws E (calls w @ [SimpleGit dir, CheckIsRepo dir]) (Status dir) = None"
    and "branch \<noteq> []"
    and "commitAndPush E fs msg (Some branch) workingDir False w = (r, w')"
  shows "prefix (h @ [CheckoutBranch dir branch ''HEAD'']) (calls w')
       \<and> (throws E h (CheckoutBranch dir branch ''HEAD'') = None \<longrightarrow>
            filter is_plain_switch (drop (length (calls w)) (calls w')) = [])
       \<and> (throws E h (CheckoutBranch dir branch ''HEAD'') \<noteq> None \<longrightarrow>
            prefix (h @ [CheckoutBranch dir branch ''HEAD'', Checkout dir branch]) (calls w')
            \<and> filter is_plain_switch (drop (length (calls w)) (calls w')) = [Checkout dir branch])
       \<and> (\<forall>switchError.
             throws E h (CheckoutBranch dir branch ''HEAD'') \<noteq> None
             \<and> throws E (h @ [CheckoutBranch dir branch ''HEAD'']) (Checkout dir branch) = Some switchError \<longrightarrow>
             r = failed ''Failed to commit and push''
                   (''Failed to create or switch to branch '' @ branch @ '': '' @ error_toString switchError)
             \<and> calls w' = h @ [CheckoutBranch dir branch ''HEAD'', Checkout dir branch])"
proof -
  from commitAndPush_branch_step [OF assms] obtain cs where
    cs: "list_all (\<lambda>c. \<not> is_plain_switch c) cs"
    and step: "case throws E h (CheckoutBranch dir branch ''HEAD'') of
              None \<Rightarrow> calls w' = h @ [CheckoutBranch dir branch ''HEAD''] @ cs
            | Some createError \<Rightarrow>
                (case throws E (h @ [CheckoutBranch dir branch ''HEAD'']) (Checkout dir branch) of
                   None \<Rightarrow> calls w' = h @ [CheckoutBranch dir branch ''HEAD'', Checkout dir branch] @ cs
                 | Some switchError \<Rightarrow>
                     calls w' = h @ [CheckoutBranch dir branch ''HEAD'', Checkout dir branch]
                     \<and> r = failed ''Failed to commit and push''
                             (''Failed to create or switch to branch '' @ branch @ '': ''
                              @ error_toString switchError))"
    by blast
  from cs have none: "filter is_plain_switch cs = []"
    by (simp add: list_all_iff)
  show ?thesis
  proof (cases "throws E h (CheckoutBranch dir branch ''HEAD'')")
    case None
    with step have "calls w' = h @ [CheckoutBranch dir branch ''HEAD''] @ cs" by simp
    with None none show ?thesis by (simp add: assms(2))
  next
    case (Some createError)
    show ?thesis
    proof (cases "throws E (h @ [CheckoutBranch dir branch ''HEAD'']) (Checkout dir branch)")
      case None
      with Some step have "calls w' = h @ [CheckoutBranch dir branch ''HEAD'', Checkout dir branch] @ cs"
        by simp
      with Some None none show ?thesis by (simp add: assms(2))
    next
      case switch: (Some switchError)
      with Some step have "calls w' = h @ [CheckoutBranch dir branch ''HEAD'', Checkout dir branch]"
        and "r = failed ''Failed to commit and push''
                   (''Failed to create or switch to branch '' @ branch @ '': '' @ error_toString switchError)"
        by simp_all
      with Some switch show ?thesis by (simp add: assms(2))
    qed
  qed
qed

theorem commitAndPush_branch_fallback_witness:
  "fst (commitAndPush locked_branch_env [''a.txt''] ''fix: typo'' (Some ''feature'') None False empty_world)
     = failed ''Failed to commit and push''
         ''Failed to create or switch to branch feature: Error: local changes would be overwritten''
   \<and> calls (snd (commitAndPush locked_branch_env [''a.txt''] ''fix: typo'' (Some ''feature'') None False empty_world))
     = [SimpleGit ''/repo'', CheckIsRepo ''/repo'', Status ''/repo'',
        CheckoutBranch ''/repo'' ''feature'' ''HEAD'', Checkout ''/repo'' ''feature'']"
proof -
  let ?E = locked_branch_env
  let ?h = "[SimpleGit ''/repo'', CheckIsRepo ''/repo'', Status ''/repo'']"
  have dir: "''/repo'' = or_else None (process_cwd ?E)"
    by (simp add: locked_branch_env_def scripted_def)
  have h: "?h = calls empty_world @ [SimpleGit ''/repo'', CheckIsRepo ''/repo'', Status ''/repo'']"
    by (simp add: empty_world_def)
  have valid: "throws ?E (calls empty_world) (SimpleGit ''/repo'') = None"
    "throws ?E (calls empty_world @ [SimpleGit ''/repo'']) (CheckIsRepo ''/repo'') = None"
    "is_repo ?E (calls empty_world @ [SimpleGit ''/repo'']) ''/repo''"
    "throws ?E (calls empty_world @ [SimpleGit ''/repo'', CheckIsRepo ''/repo'']) (Status ''/repo'') = None"
    by (simp_all add: locked_branch_env_def scripted_def)
  have both: "throws ?E ?h (CheckoutBranch ''/repo'' ''feature'' ''HEAD'') \<noteq> None
      \<and> throws ?E (?h @ [CheckoutBranch ''/repo'' ''feature'' ''HEAD'']) (Checkout ''/repo'' ''feature'')
          = Some (new_Error ''local changes would be overwritten'')"
    by (simp add: locked_branch_env_def scripted_def)
  have "''feature'' \<noteq> []" by simp
  from commitAndPush_branch_fallback
         [where E = ?E and workingDir = None and w = empty_world and fs = "[''a.txt'']" and msg = "''fix: typo''",
          OF dir h valid this surjective_pairing,
          THEN conjunct2, THEN conjunct2, THEN conjunct2, THEN spec, THEN mp, OF both]
  show ?thesis
    by (simp add: error_toString_def new_Error_def)
qed

subsection \<open>The fields of a result\<close>




subsection \<open>Dry runs\<close>

lemma createPullRequest_dry_run:
  "createPullRequest E title body baseBranch headBranch workingDir True w =
     (succeeded ''Dry run: Would create pull request''
        (PullRequestDryRun title body (default_to baseBranch ''main'') headBranch), w)"
  by (simp add: createPullRequest_def try_catch_def)

lemma mergePullRequest_dry_run:
  "mergePullRequest E prNumber mergeMethod deleteBranch workingDir True w =
     (succeeded ''Dry run: Would merge pull request''
        (MergeDryRun prNumber (default_to mergeMethod Merge) (default_to deleteBranch True)), w)"
  by (simp add: mergePullRequest_def try_catch_def)

lemma completeGitWorkflow_dry_run:
  "completeGitWorkflow E fs msg title body branch baseBranch autoMerge workingDir True w =
     (succeeded ''Dry run: Would execute complete Git workflow''
        (WorkflowDryRun fs msg title body branch (default_to baseBranch ''main'') autoMerge), w)"
  by (simp add: completeGitWorkflow_def try_catch_def)

text \<open>The dry run of \<^verbatim>\<open>commitAndPush\<close> comes after \<^verbatim>\<open>getGit\<close>: it succeeds when the
  handle can be made, and then the making of the handle is the only call.\<close>

lemma commitAndPush_dry_run:
  assumes "throws E (calls w) (SimpleGit (or_else workingDir (process_cwd E))) = None"
  shows "commitAndPush E fs msg branch workingDir True w =
     (succeeded ''Dry run: Would commit and push changes'' (CommitDryRun fs msg branch workingDir),
      w\<lparr>calls := calls w @ [SimpleGit (or_else workingDir (process_cwd E))]\<rparr>)"
  using assms by (simp add: commitAndPush_def getGit_def perform_def and_then_def try_catch_def Let_def)

lemma commitAndPush_dry_run_throws:
  assumes "throws E (calls w) (SimpleGit (or_else workingDir (process_cwd E))) = Some e"
  shows "commitAndPush E fs msg branch workingDir True w =
     (commit_caught e,
      w\<lparr>calls := calls w @ [SimpleGit (or_else workingDir (process_cwd E))]\<rparr>)"
  using assms by (simp add: commitAndPush_def getGit_def perform_def and_then_def try_catch_def Let_def)

text \<open>
  Claim C4 asks that every dry run succeeds. \<^verbatim>\<open>createPullRequest\<close>,
  \<^verbatim>\<open>mergePullRequest\<close> and \<^verbatim>\<open>completeGitWorkflow\<close> test \<^verbatim>\<open>dryRun\<close> first;
  \<^verbatim>\<open>commitAndPush\<close> calls \<^verbatim>\<open>getGit\<close> before the test, inside the \<^verbatim>\<open>try\<close> block. For a
  working directory that does not exist the factory of \<^verbatim>\<open>simple-git\<close> throws, and the dry
  run is a failure.
\<close>

theorem commitAndPush_dry_run_fails_without_directory:
  "commitAndPush no_directory_env [''a.txt''] ''fix: typo'' (Some ''feature'') (Some ''/no/such/dir'') True empty_world
     = (\<lparr>success = False, message = ''Failed to commit and push'', details = None,
          error = Some ''Cannot use simple-git on a directory that does not exist''\<rparr>,
        \<lparr>calls = [SimpleGit ''/no/such/dir''], files = Map.empty\<rparr>)"
  by (simp add: run_commitAndPush no_directory_env_def new_Error_def failed_def)

text \<open>
  Claim C10 asks that a dry run of \<^verbatim>\<open>commitAndPush\<close> succeeds whatever the working
  directory is. The repository check is indeed not made in a dry run, but the handle is,
  and for a directory that does not exist that is where the dry run fails.
\<close>

theorem commitAndPush_dry_run_is_not_unconditional:
  "\<not> success (fst (commitAndPush no_directory_env [] ''chore: release'' None (Some ''/tmp/removed'') True empty_world))
   \<and> CheckIsRepo ''/tmp/removed''
        \<notin> set (calls (snd (commitAndPush no_directory_env [] ''chore: release'' None (Some ''/tmp/removed'') True empty_world)))"
  by (simp add: run_commitAndPush no_directory_env_def new_Error_def)

subsection \<open>The command line of the pull request\<close>

text \<open>
  Claim C5 asks that, whatever the title and the body are, the body reaches the executed
  command through the temporary file only and the title is escaped. The source rewrites
  the command line it has already built by interpolation, with regular expressions that
  stop at the first double quote: \<^verbatim>\<open>--body "[^"]*"\<close> and \<^verbatim>\<open>--title "([^"]*)"\<close>. For a
  title and a body that contain double quotes, only the text up to the first of them is
  replaced. In the command that is executed below, the rest of the body,
  \<^verbatim>\<open>remember me" box"\<close>, stands after the name of the temporary file, and the rest of the
  title, \<^verbatim>\<open>login" bug"\<close>, stands unescaped after the escaped title.
\<close>

theorem createPullRequest_leaves_quoted_text_inline:
  "calls (snd (createPullRequest quiet_env quoted_title quoted_body None (Some ''h'') None False empty_world)) =
     [WriteFileSync ''/tmp/gh-pr-body-1700.txt'' quoted_body,
      Exec (powerShellCommand
              (''gh pr create --title '' @ [squote] @ ''Fix '' @ [dquote, dquote] @ ''login'' @ [dquote, dquote]
               @ '' bug'' @ [squote] @ ''login'' @ [dquote] @ '' bug'' @ [dquote]
               @ '' --body-file '' @ [dquote] @ ''/tmp/gh-pr-body-1700.txt'' @ [dquote]
               @ ''remember me'' @ [dquote] @ '' box'' @ [dquote] @ '' --base main --head h''))
        ''/repo'',
      UnlinkSync ''/tmp/gh-pr-body-1700.txt'']"
  by code_simp

end
